theory Spec2Isabelle
  imports Complex_Main
begin

section \<open>Strings of the runtime\<close>

text \<open>
  A JavaScript string is a sequence of UTF-16 code units. A code unit is modelled as a
  natural number and a string as a list of them, so that every text the bot can receive
  (accented letters, the euro sign, emoji as surrogate pairs) is a value of the type.
  \<open>str\<close> turns an ASCII literal into such a string; letters beyond ASCII are written by
  their code unit: 225 a-acute, 233 e-acute, 237 i-acute, 243 o-acute, 250 u-acute,
  252 u-diaeresis, 241 n-tilde, 8364 the euro sign.
\<close>

type_synonym jschar = nat
type_synonym jsstring = "nat list"

definition str :: "string \<Rightarrow> jsstring" where
  "str s = map of_char s"

text \<open>\<open>s.startsWith(p)\<close> and \<open>s.includes(sub)\<close>.\<close>

fun startsWith :: "jsstring \<Rightarrow> jsstring \<Rightarrow> bool" where
  "startsWith s [] = True"
| "startsWith [] (p # ps) = False"
| "startsWith (x # xs) (p # ps) = (x = p \<and> startsWith xs ps)"

fun str_includes :: "jsstring \<Rightarrow> jsstring \<Rightarrow> bool" where
  "str_includes [] sub = (sub = [])"
| "str_includes (x # xs) sub = (startsWith (x # xs) sub \<or> str_includes xs sub)"

text \<open>
  White space and line terminators, the units that \<open>trim\<close> strips and that \<open>\s\<close>
  matches: tab, line feed, vertical tab, form feed, carriage return, space, no-break
  space, U+1680, U+2000 to U+200A, U+2028, U+2029, U+202F, U+205F, U+3000, U+FEFF.
\<close>

definition is_space :: "jschar \<Rightarrow> bool" where
  "is_space x =
    ((9 \<le> x \<and> x \<le> 13) \<or> x = 32 \<or> x = 160 \<or> x = 5760 \<or> (8192 \<le> x \<and> x \<le> 8202)
     \<or> x = 8232 \<or> x = 8233 \<or> x = 8239 \<or> x = 8287 \<or> x = 12288 \<or> x = 65279)"

definition trim :: "jsstring \<Rightarrow> jsstring" where
  "trim s = rev (dropWhile is_space (rev (dropWhile is_space s)))"

text \<open>\<open>s.replace(p, r)\<close> with a string pattern: the first occurrence only.\<close>

fun replace_str :: "jsstring \<Rightarrow> jsstring \<Rightarrow> jsstring \<Rightarrow> jsstring" where
  "replace_str [] p r = (if p = [] then r else [])"
| "replace_str (x # xs) p r =
     (if startsWith (x # xs) p then r @ drop (length p) (x # xs)
      else x # replace_str xs p r)"

text \<open>
  Case mapping. \<open>toLowerCase\<close> and \<open>toUpperCase\<close> follow the Unicode tables of the
  runtime. \<open>lower_unit\<close> gives the lower case of every unit whose lower case lies in
  Basic Latin or the Latin-1 Supplement: the capital letters of the two blocks, Y with
  diaeresis (U+0178), capital sharp s (U+1E9E), the Kelvin sign (U+212A) and the Angstrom
  sign (U+212B); and of I with dot above (U+0130), the one unit whose lower case is two
  units, i and the combining dot U+0307. Any other cased unit has its lower case outside
  Latin-1 and is kept: no keyword and no pattern of the repository has such a unit.
  Upper-casing can leave Latin-1 (y-diaeresis, micro sign) or give two units (sharp s), so
  it returns a string too.
\<close>

definition lower_unit :: "jschar \<Rightarrow> jsstring" where
  "lower_unit x =
    (if (65 \<le> x \<and> x \<le> 90) \<or> (192 \<le> x \<and> x \<le> 222 \<and> x \<noteq> 215) then [x + 32]
     else if x = 304 then [105, 775]
     else if x = 376 then [255]
     else if x = 7838 then [223]
     else if x = 8490 then [107]
     else if x = 8491 then [229]
     else [x])"

definition toLowerCase :: "jsstring \<Rightarrow> jsstring" where
  "toLowerCase s = concat (map lower_unit s)"

definition upper_unit :: "jschar \<Rightarrow> jsstring" where
  "upper_unit x =
    (if (97 \<le> x \<and> x \<le> 122) \<or> (224 \<le> x \<and> x \<le> 254 \<and> x \<noteq> 247) then [x - 32]
     else if x = 223 then [83, 83]
     else if x = 255 then [376]
     else if x = 181 then [924]
     else [x])"

text \<open>\<open>s.charAt(0).toUpperCase() + s.slice(1)\<close>.\<close>

definition capitalize :: "jsstring \<Rightarrow> jsstring" where
  "capitalize s = (case s of [] \<Rightarrow> [] | x # xs \<Rightarrow> upper_unit x @ xs)"

text \<open>\<open>s.padStart(n, '0')\<close>.\<close>

definition padStart0 :: "nat \<Rightarrow> jsstring \<Rightarrow> jsstring" where
  "padStart0 n s = replicate (n - length s) 48 @ s"

section \<open>Numbers and their text\<close>

definition is_digit :: "jschar \<Rightarrow> bool" where
  "is_digit x = (48 \<le> x \<and> x \<le> 57)"

text \<open>
  \<open>parseInt(s, 10)\<close> on the captures of \<open>\d\<close> groups: the value of the leading run of
  decimal digits, \<open>NaN\<close> (here \<open>None\<close>) when there is none. \<open>parseInt (undefined)\<close> is
  \<open>NaN\<close> too.
\<close>

definition parseInt :: "jsstring option \<Rightarrow> int option" where
  "parseInt g =
    (case g of
       None \<Rightarrow> None
     | Some s \<Rightarrow>
        (let ds = takeWhile is_digit s
         in if ds = [] then None else Some (foldl (\<lambda>a d. 10 * a + int (d - 48)) 0 ds)))"

fun string_of_nat :: "nat \<Rightarrow> jsstring" where
  "string_of_nat n =
     (if n < 10 then [48 + n] else string_of_nat (n div 10) @ [48 + n mod 10])"

declare string_of_nat.simps [simp del]

definition string_of_int :: "int \<Rightarrow> jsstring" where
  "string_of_int i = (if i < 0 then 45 # string_of_nat (nat (- i)) else string_of_nat (nat i))"

text \<open>\<open>String(n)\<close> and \<open>`${n}`\<close> of a number that may be \<open>NaN\<close>.\<close>

definition string_of_number :: "int option \<Rightarrow> jsstring" where
  "string_of_number n = (case n of None \<Rightarrow> str ''NaN'' | Some i \<Rightarrow> string_of_int i)"

section \<open>Regular expressions\<close>

text \<open>
  The patterns of the repository are built from character classes, literals, sequence,
  alternation, greedy \<open>?\<close>, greedy \<open>*\<close> and \<open>+\<close> and lazy \<open>+?\<close> on a character
  class, capture groups and the end anchor \<open>$\<close>. \<open>rmatch r s c\<close> lists, in the order
  in which the backtracking matcher of the runtime tries them, the ways \<open>r\<close> can match a
  prefix of \<open>s\<close>: each as the rest of the input and the captures. A greedy quantifier lists
  the longer match first, a lazy one the shorter, an alternation its left branch first.
\<close>

type_synonym captures = "nat \<Rightarrow> jsstring option"

datatype regex =
    Chr "jschar \<Rightarrow> bool"
  | Seq regex regex
  | Alt regex regex
  | Opt regex
  | Star "jschar \<Rightarrow> bool"
  | LazyStar "jschar \<Rightarrow> bool"
  | Grp nat regex
  | Eos
  | Eps

fun rmatch :: "regex \<Rightarrow> jsstring \<Rightarrow> captures \<Rightarrow> (jsstring \<times> captures) list" where
  "rmatch (Chr p) [] c = []"
| "rmatch (Chr p) (x # xs) c = (if p x then [(xs, c)] else [])"
| "rmatch (Seq a b) s c = concat (map (\<lambda>(s', c'). rmatch b s' c') (rmatch a s c))"
| "rmatch (Alt a b) s c = rmatch a s c @ rmatch b s c"
| "rmatch (Opt a) s c = rmatch a s c @ [(s, c)]"
| "rmatch (Star p) [] c = [([], c)]"
| "rmatch (Star p) (x # xs) c =
     (if p x then rmatch (Star p) xs c @ [(x # xs, c)] else [(x # xs, c)])"
| "rmatch (LazyStar p) [] c = [([], c)]"
| "rmatch (LazyStar p) (x # xs) c =
     (x # xs, c) # (if p x then rmatch (LazyStar p) xs c else [])"
| "rmatch (Grp i a) s c =
     map (\<lambda>(s', c'). (s', c'(i \<mapsto> take (length s - length s') s))) (rmatch a s c)"
| "rmatch Eos s c = (if s = [] then [(s, c)] else [])"
| "rmatch Eps s c = [(s, c)]"

text \<open>
  \<open>text.match(pattern)\<close> for a pattern without the \<open>g\<close> flag: the first way to match
  at the leftmost position where there is one. The result is the index of the match, the
  input after it and the captures; \<open>None\<close> is \<open>null\<close>.
\<close>

type_synonym match_result = "nat \<times> jsstring \<times> captures"

fun search :: "regex \<Rightarrow> jsstring \<Rightarrow> match_result option" where
  "search r [] =
     (case rmatch r [] Map.empty of (s', c) # _ \<Rightarrow> Some (0, s', c) | [] \<Rightarrow> None)"
| "search r (x # t) =
     (case rmatch r (x # t) Map.empty of
        (s', c) # _ \<Rightarrow> Some (0, s', c)
      | [] \<Rightarrow> map_option (\<lambda>(i, s', c). (Suc i, s', c)) (search r t))"

text \<open>\<open>s.replace(pattern, r)\<close> for a pattern without the \<open>g\<close> flag.\<close>

definition replace_re :: "jsstring \<Rightarrow> regex \<Rightarrow> jsstring \<Rightarrow> jsstring" where
  "replace_re s pattern r =
    (case search pattern s of None \<Rightarrow> s | Some (i, s', c) \<Rightarrow> take i s @ r @ s')"

text \<open>
  A captured group in a boolean position (\<open>match && match[1]\<close>): \<open>undefined\<close> and
  the empty string are false.
\<close>

definition truthy :: "jsstring option \<Rightarrow> bool" where
  "truthy g = (case g of None \<Rightarrow> False | Some w \<Rightarrow> w \<noteq> [])"

text \<open>
  Matching under the flag \<open>i\<close> (without \<open>u\<close>) compares canonicalised units: a unit is
  replaced by its upper case when that is a single unit and does not turn a unit from
  128 on into one below 128. No unit beyond Latin-1 is canonicalised onto a letter of the
  repository's patterns.
\<close>

definition canonicalize :: "jschar \<Rightarrow> jschar" where
  "canonicalize x =
    (case upper_unit x of [u] \<Rightarrow> (if 128 \<le> x \<and> u < 128 then x else u) | _ \<Rightarrow> x)"

definition ci :: "jschar \<Rightarrow> jschar \<Rightarrow> bool" where
  "ci a x = (canonicalize x = canonicalize a)"

definition seq :: "regex list \<Rightarrow> regex" where
  "seq rs = foldr Seq rs Eps"

fun alts :: "regex list \<Rightarrow> regex" where
  "alts [] = Chr (\<lambda>x. False)"
| "alts [r] = r"
| "alts (r # rs) = Alt r (alts rs)"

definition lit :: "jsstring \<Rightarrow> regex" where
  "lit s = seq (map (\<lambda>a. Chr (\<lambda>x. x = a)) s)"

definition liti :: "jsstring \<Rightarrow> regex" where
  "liti s = seq (map (\<lambda>a. Chr (ci a)) s)"

definition many1 :: "(jschar \<Rightarrow> bool) \<Rightarrow> regex" where
  "many1 p = Seq (Chr p) (Star p)"

definition many1_lazy :: "(jschar \<Rightarrow> bool) \<Rightarrow> regex" where
  "many1_lazy p = Seq (Chr p) (LazyStar p)"

text \<open>The classes \<open>[0-9.,]\<close>, \<open>[\/\-\.]\<close>, \<open>\w\<close>, \<open>.\<close> and the quantified \<open>\d{1,2}\<close>, \<open>\d{2,4}\<close>.\<close>

definition is_amount_char :: "jschar \<Rightarrow> bool" where
  "is_amount_char x = (is_digit x \<or> x = 46 \<or> x = 44)"

definition is_date_sep :: "jschar \<Rightarrow> bool" where
  "is_date_sep x = (x = 47 \<or> x = 45 \<or> x = 46)"

definition is_word :: "jschar \<Rightarrow> bool" where
  "is_word x = ((97 \<le> x \<and> x \<le> 122) \<or> (65 \<le> x \<and> x \<le> 90) \<or> is_digit x \<or> x = 95)"

definition is_dot :: "jschar \<Rightarrow> bool" where
  "is_dot x = (x \<noteq> 10 \<and> x \<noteq> 13 \<and> x \<noteq> 8232 \<and> x \<noteq> 8233)"

definition dollar :: regex where
  "dollar = Chr (\<lambda>x. x = 36)"

definition digits_1_2 :: regex where
  "digits_1_2 = Seq (Chr is_digit) (Opt (Chr is_digit))"

definition digits_2_4 :: regex where
  "digits_2_4 =
    Seq (Chr is_digit) (Seq (Chr is_digit) (Opt (Seq (Chr is_digit) (Opt (Chr is_digit)))))"

section \<open>config.js\<close>

text \<open>\<open>expenseCategories\<close>, as the entries of the object in their order.\<close>

definition expenseCategories :: "(jsstring \<times> jsstring list) list" where
  "expenseCategories =
    [(str ''supermercado'',
        [str ''mercado'', str ''super'', str ''carrefour'', str ''d'' @ [237] @ str ''a'',
         str ''coto'', str ''jumbo'', str ''walmart'', str ''alimento'',
         str ''verduler'' @ [237] @ str ''a'', str ''fruter'' @ [237] @ str ''a'',
         str ''compras'']),
     (str ''restaurante'',
        [str ''restaurante'', str ''bar'', str ''caf'' @ [233], str ''menu'', str ''comida'',
         str ''almuerzo'', str ''cena'', str ''desayuno'', str ''merienda'']),
     (str ''transporte'',
        [str ''uber'', str ''cabify'', str ''taxi'', str ''transporte'', str ''combustible'',
         str ''gasolina'', str ''estacionamiento'', str ''sube'', str ''colectivo'',
         str ''subte'', str ''tren'']),
     (str ''servicios'',
        [str ''electricidad'', str ''agua'', str ''gas'', str ''internet'',
         str ''tel'' @ [233] @ str ''fono'', str ''celular'', str ''factura'', str ''servicio'',
         str ''wifi'', str ''etb'', str ''wom'']),
     (str ''entretenimiento'',
        [str ''cine'', str ''teatro'', str ''concierto'', str ''evento'', str ''streaming'',
         str ''netflix'', str ''spotify'', str ''disney'', str ''hbo'', str ''prime'',
         str ''claude'']),
     (str ''salud'',
        [str ''farmacia'', str ''m'' @ [233] @ str ''dico'', str ''hospital'',
         str ''cl'' @ [237] @ str ''nica'', str ''consulta'', str ''remedio'', str ''medicina'',
         str ''bodytech'', str ''gimnasio'']),
     (str ''tecnolog'' @ [237] @ str ''a'',
        [str ''computadora'', str ''pc'', str ''laptop'', str ''celular'', str ''gadget'',
         str ''auricular'', str ''earbuds'', str ''hardware'', str ''software'', str ''app'',
         str ''aplicaci'' @ [243] @ str ''n'']),
     (str ''snacks'',
        [str ''dulces'', str ''snacks'', str ''golosinas'', str ''chocolate'', str ''galletas'',
         str ''bebidas'', str ''refresco'', str ''caf'' @ [233]]),
     (str ''educaci'' @ [243] @ str ''n'',
        [str ''universidad'', str ''curso'', str ''libro'', str ''semestre'',
         str ''matr'' @ [237] @ str ''cula'', str ''clases'']),
     (str ''otros'', [])]"

text \<open>\<open>intentKeywords\<close>, as the entries of the object in their order.\<close>

definition intentKeywords :: "(jsstring \<times> jsstring list) list" where
  "intentKeywords =
    [(str ''gasto'',
        [str ''gast'' @ [233], str ''pagu'' @ [233], str ''compr'' @ [233], str ''abono'',
         str ''pagado'', str ''costo'', str ''compra'', str ''gasto'', str ''pago'']),
     (str ''ingreso'',
        [str ''cobr'' @ [233], str ''recib'' @ [237], str ''ingres'' @ [233], str ''ingreso'',
         str ''dep'' @ [243] @ str ''sito'', str ''transferencia'', str ''sueldo'',
         str ''honorarios'', str ''cobro'', str ''freelance'']),
     (str ''meta'',
        [str ''meta'', str ''objetivo'', str ''ahorrar'', str ''ahorro'', str ''reservar'',
         str ''apartado'', str ''destinar'']),
     (str ''reporte'',
        [str ''reporte'', str ''informe'', str ''estad'' @ [237] @ str ''sticas'',
         str ''an'' @ [225] @ str ''lisis'', str ''balance'', str ''resumen'']),
     (str ''presupuesto'',
        [str ''presupuesto'', str ''l'' @ [237] @ str ''mite'', str ''asignar'',
         str ''destinar''])]"

text \<open>
  \<open>amountPatterns\<close>:
  \<^verbatim>\<open>/\$\s*([0-9.,]+)/\<close>,
  \<^verbatim>\<open>/([0-9.,]+)\s*pesos/i\<close>,
  \<^verbatim>\<open>/([0-9.,]+)\s*\$/\<close>,
  \<^verbatim>\<open>/([0-9.,]+)\s*ars/i\<close>,
  \<^verbatim>\<open>/(?:pagu'e|gast'e|cost'o|compr'e|abono|costo|compra|pago|gasto)\s*(?:de)?\s*\$?\s*([0-9.,]+)/i\<close>
  (where \<open>'e\<close> and \<open>'o\<close> stand for the letters e-acute and o-acute) and
  \<^verbatim>\<open>/\$?\s*([0-9.,]+)\s*(?:en|por)/i\<close>.
\<close>

definition amountPatterns :: "regex list" where
  "amountPatterns =
    [seq [dollar, Star is_space, Grp 1 (many1 is_amount_char)],
     seq [Grp 1 (many1 is_amount_char), Star is_space, liti (str ''pesos'')],
     seq [Grp 1 (many1 is_amount_char), Star is_space, dollar],
     seq [Grp 1 (many1 is_amount_char), Star is_space, liti (str ''ars'')],
     seq [alts [liti (str ''pagu'' @ [233]), liti (str ''gast'' @ [233]),
                liti (str ''cost'' @ [243]), liti (str ''compr'' @ [233]),
                liti (str ''abono''), liti (str ''costo''), liti (str ''compra''),
                liti (str ''pago''), liti (str ''gasto'')],
          Star is_space, Opt (liti (str ''de'')), Star is_space, Opt dollar, Star is_space,
          Grp 1 (many1 is_amount_char)],
     seq [Opt dollar, Star is_space, Grp 1 (many1 is_amount_char), Star is_space,
          alts [liti (str ''en''), liti (str ''por'')]]]"

text \<open>
  \<open>datePatterns[0]\<close>, the only date pattern the code uses:
  \<^verbatim>\<open>/(?:el|del|fecha)\s*(\d{1,2})[\/\-\.](\d{1,2})(?:[\/\-\.](\d{2,4}))?/i\<close>.
\<close>

definition datePattern0 :: regex where
  "datePattern0 =
    seq [alts [liti (str ''el''), liti (str ''del''), liti (str ''fecha'')], Star is_space,
         Grp 1 digits_1_2, Chr is_date_sep, Grp 2 digits_1_2,
         Opt (seq [Chr is_date_sep, Grp 3 digits_2_4])]"

section \<open>Dates of the runtime\<close>

text \<open>
  A \<open>Date\<close> object, read through \<open>getFullYear\<close>, \<open>getMonth\<close> (January is 0) and
  \<open>getDate\<close> in local time; the time of day plays no part in the code and is left out.
  \<open>new Date()\<close>, the processing date, is a parameter \<open>today\<close> of the functions that
  read the clock.
\<close>

record jsdate =
  getFullYear :: int
  getMonth :: nat
  getDate :: nat

definition leap_year :: "int \<Rightarrow> bool" where
  "leap_year y = ((y mod 4 = 0 \<and> y mod 100 \<noteq> 0) \<or> y mod 400 = 0)"

definition days_in_month :: "int \<Rightarrow> nat \<Rightarrow> nat" where
  "days_in_month y m =
    (if m = 1 then (if leap_year y then 29 else 28)
     else if m = 3 \<or> m = 5 \<or> m = 8 \<or> m = 10 then 30
     else 31)"

text \<open>
  \<open>d.setDate(n)\<close>: the day \<open>n\<close> of the month of \<open>d\<close>, where a day below 1 or beyond
  the end of the month runs over into the months before or after.
\<close>

function set_day :: "int \<Rightarrow> nat \<Rightarrow> int \<Rightarrow> jsdate" where
  "set_day y m n =
     (if n < 1 then
        (if m = 0 then set_day (y - 1) 11 (n + 31)
         else set_day y (m - 1) (n + int (days_in_month y (m - 1))))
      else if int (days_in_month y m) < n then
        (if 11 \<le> m then set_day (y + 1) 0 (n - int (days_in_month y m))
         else set_day y (m + 1) (n - int (days_in_month y m)))
      else \<lparr>getFullYear = y, getMonth = m, getDate = nat n\<rparr>)"
  by pat_completeness auto
termination
  by (relation "measure (\<lambda>(y, m, n). if n < 1 then nat (1 - n) + 32 else nat n)")
     (auto simp: days_in_month_def)

declare set_day.simps [simp del]

definition setDate :: "jsdate \<Rightarrow> int \<Rightarrow> jsdate" where
  "setDate d n = set_day (getFullYear d) (getMonth d) n"

section \<open>Loops that return\<close>

text \<open>
  A \<open>for (const x of xs)\<close> loop whose body may \<open>return\<close>: the value returned by the
  body at the first element where it returns, \<open>None\<close> when the loop runs to its end.
\<close>

fun for_return :: "('a \<Rightarrow> 'b option) \<Rightarrow> 'a list \<Rightarrow> 'b option" where
  "for_return body [] = None"
| "for_return body (x # xs) =
     (case body x of Some r \<Rightarrow> Some r | None \<Rightarrow> for_return body xs)"

section \<open>utils/textProcessing.js\<close>

text \<open>
  The body of the loop of \<open>extractAmountFromText\<close> (and of \<open>extractAmount\<close> for
  receipts, which has the same body): the normalised first group of a match.
\<close>

definition amount_of_pattern :: "jsstring \<Rightarrow> regex \<Rightarrow> jsstring option" where
  "amount_of_pattern text pattern =
    (case search pattern text of
       None \<Rightarrow> None
     | Some (i, rest, m) \<Rightarrow>
        (case m 1 of
           None \<Rightarrow> None
         | Some g \<Rightarrow> if g = [] then None else Some (replace_str (trim g) (str '','') (str ''.''))))"

definition extractAmountFromText :: "jsstring \<Rightarrow> jsstring option" where
  "extractAmountFromText text = for_return (amount_of_pattern text) amountPatterns"

definition getIntent :: "jsstring \<Rightarrow> jsstring option" where
  "getIntent text =
    (let textLower = toLowerCase text
     in case for_return
               (\<lambda>(intent, keywords).
                  for_return (\<lambda>keyword. if str_includes textLower keyword then Some intent else None)
                    keywords)
               intentKeywords of
          Some intent \<Rightarrow> Some intent
        | None \<Rightarrow>
            if extractAmountFromText text \<noteq> None then Some (str ''gasto'') else None)"

definition formatDate :: "jsdate \<Rightarrow> jsstring" where
  "formatDate d =
    (let year = getFullYear d;
         month = padStart0 2 (string_of_number (Some (int (getMonth d) + 1)));
         day = padStart0 2 (string_of_number (Some (int (getDate d))))
     in string_of_number (Some year) @ str ''-'' @ month @ str ''-'' @ day)"

text \<open>
  \<open>if (year < 100) { year += year < 50 ? 2000 : 1900; }\<close>; a comparison with \<open>NaN\<close>
  is false.
\<close>

definition adjust_year :: "int option \<Rightarrow> int option" where
  "adjust_year year =
    (case year of
       None \<Rightarrow> None
     | Some y \<Rightarrow> if y < 100 then Some (y + (if y < 50 then 2000 else 1900)) else Some y)"

definition extractDateFromText :: "jsdate \<Rightarrow> jsstring \<Rightarrow> jsstring" where
  "extractDateFromText today text =
    (case search datePattern0 text of
       Some (i, rest, dateMatch) \<Rightarrow>
        (let day = parseInt (dateMatch 1);
             month = parseInt (dateMatch 2);
             year = (if truthy (dateMatch 3) then parseInt (dateMatch 3)
                     else Some (getFullYear today));
             year = adjust_year year
         in string_of_number year @ str ''-'' @ padStart0 2 (string_of_number month)
            @ str ''-'' @ padStart0 2 (string_of_number day))
     | None \<Rightarrow>
        if str_includes (toLowerCase text) (str ''hoy'') then formatDate today
        else if str_includes (toLowerCase text) (str ''ayer'') then
          formatDate (setDate today (int (getDate today) - 1))
        else if str_includes (toLowerCase text) (str ''anteayer'') then
          formatDate (setDate today (int (getDate today) - 2))
        else formatDate today)"

definition categorizeExpense :: "jsstring \<Rightarrow> jsstring" where
  "categorizeExpense text =
    (let textLower = toLowerCase text
     in case for_return
               (\<lambda>(category, keywords).
                  for_return
                    (\<lambda>keyword. if str_includes textLower (toLowerCase keyword) then Some category
                                else None)
                    keywords)
               expenseCategories of
          Some category \<Rightarrow> category
        | None \<Rightarrow> str ''otros'')"

text \<open>
  The patterns of \<open>extractConceptFromText\<close>. The class of a concept, written
  \<open>[...]\<close> below, has the word characters \<open>\w\<close>, the seven accented letters
  (a, e, i, o, u with acute, u with diaeresis, n with tilde) and white space \<open>\s\<close>, and
  is matched under the flag \<open>i\<close>; the pattern built for a preposition is
  \<^verbatim>\<open>prep\s+(el|la|los|las)?\s*([...]+)\<close> in the first loop and
  \<^verbatim>\<open>prep\s+([...]+)\<close> in the loop for incomes. The two patterns that clean a
  concept are \<^verbatim>\<open>/\$?\s*[0-9.,]+\s*(?:pesos)?$/\<close> and
  \<^verbatim>\<open>/\d{1,2}[\/\-\.]\d{1,2}(?:[\/\-\.]\d{2,4})?$/\<close>.
\<close>

definition is_concept_char :: "jschar \<Rightarrow> bool" where
  "is_concept_char x =
    (is_word x \<or> ci 225 x \<or> ci 233 x \<or> ci 237 x \<or> ci 243 x \<or> ci 250 x \<or> ci 252 x
     \<or> ci 241 x \<or> is_space x)"

definition prep_pattern :: "jsstring \<Rightarrow> regex" where
  "prep_pattern prep =
    seq [liti prep, many1 is_space,
         Opt (Grp 1 (alts [liti (str ''el''), liti (str ''la''), liti (str ''los''),
                           liti (str ''las'')])),
         Star is_space, Grp 2 (many1 is_concept_char)]"

definition income_pattern :: "jsstring \<Rightarrow> regex" where
  "income_pattern prep = seq [liti prep, many1 is_space, Grp 1 (many1 is_concept_char)]"

definition amount_tail :: regex where
  "amount_tail =
    seq [Opt dollar, Star is_space, many1 is_amount_char, Star is_space,
         Opt (lit (str ''pesos'')), Eos]"

definition date_tail :: regex where
  "date_tail =
    seq [digits_1_2, Chr is_date_sep, digits_1_2, Opt (seq [Chr is_date_sep, digits_2_4]),
         Eos]"

text \<open>The body of the first loop of \<open>extractConceptFromText\<close>, over the prepositions.\<close>

definition concept_of_prep :: "jsstring \<Rightarrow> jsstring \<Rightarrow> jsstring option" where
  "concept_of_prep textLower prep =
    (case search (prep_pattern prep) textLower of
       None \<Rightarrow> None
     | Some (i, rest, m) \<Rightarrow>
        (case m 2 of
           None \<Rightarrow> None
         | Some g \<Rightarrow>
            if g = [] then None
            else
              (let concept = trim g;
                   concept = trim (replace_re concept amount_tail []);
                   concept = trim (replace_re concept date_tail [])
               in if 0 < length concept then Some (capitalize concept) else None)))"

text \<open>The body of the second loop, run for incomes only.\<close>

definition concept_of_income_prep :: "jsstring \<Rightarrow> jsstring \<Rightarrow> jsstring option" where
  "concept_of_income_prep textLower prep =
    (case search (income_pattern prep) textLower of
       None \<Rightarrow> None
     | Some (i, rest, m) \<Rightarrow>
        (case m 1 of
           None \<Rightarrow> None
         | Some g \<Rightarrow>
            if g = [] then None
            else
              (let concept = trim g;
                   concept = trim (replace_re concept amount_tail [])
               in if 0 < length concept then
                    (if str_includes (toLowerCase concept) (str ''freelance'')
                        \<or> str_includes (toLowerCase concept) (str ''proyecto'')
                     then Some (str ''Freelance: '' @ capitalize concept)
                     else Some (capitalize concept))
                  else None)))"

definition extractConceptFromText :: "jsstring \<Rightarrow> jsstring option \<Rightarrow> jsstring" where
  "extractConceptFromText text tipo =
    (let textLower = toLowerCase text;
         prepositions = [str ''en'', str ''de'', str ''para'', str ''por'', str ''a'']
     in case for_return (concept_of_prep textLower) prepositions of
          Some concept \<Rightarrow> concept
        | None \<Rightarrow>
            if tipo = Some (str ''ingreso'') then
              (case for_return (concept_of_income_prep textLower) [str ''por'', str ''de''] of
                 Some concept \<Rightarrow> concept
               | None \<Rightarrow>
                   if str_includes textLower (str ''freelance'')
                      \<or> str_includes textLower (str ''proyecto'')
                   then str ''Freelance''
                   else str ''Ingreso variable'')
            else
              (let categoriaEncontrada = categorizeExpense text
               in if categoriaEncontrada \<noteq> str ''otros'' then capitalize categoriaEncontrada
                  else str ''No especificado''))"

text \<open>
  \<open>detectIntent(tokens, fullText)\<close> never reads \<open>tokens\<close>, the output of the word
  tokenizer, which is left out of the model.
\<close>

definition keywords_of :: "jsstring \<Rightarrow> jsstring list" where
  "keywords_of intent = (case map_of intentKeywords intent of Some ks \<Rightarrow> ks | None \<Rightarrow> [])"

definition detectIntent :: "jsstring \<Rightarrow> jsstring option" where
  "detectIntent fullText =
    (case for_return (\<lambda>keyword. if str_includes fullText keyword then Some (str ''gasto'') else None)
            (keywords_of (str ''gasto'')) of
       Some r \<Rightarrow> Some r
     | None \<Rightarrow>
        (case for_return
                (\<lambda>keyword. if str_includes fullText keyword then Some (str ''ingreso'') else None)
                (keywords_of (str ''ingreso'')) of
           Some r \<Rightarrow> Some r
         | None \<Rightarrow>
            if extractAmountFromText fullText \<noteq> None then Some (str ''gasto'') else None))"

text \<open>
  The record that \<open>processText\<close> returns; \<open>processReceipt\<close> builds the same with
  \<open>items\<close>. \<open>null\<close> is \<open>None\<close>.
\<close>

record transaction =
  tipo :: "jsstring option"
  monto :: "jsstring option"
  fecha :: jsstring
  concepto :: jsstring
  categoria :: jsstring
  texto_completo :: jsstring
  timestamp :: jsstring
  items :: "(jsstring \<times> jsstring) list option"

text \<open>
  \<open>processText(text, forcedIntent)\<close>. The time stamp \<open>new Date().toISOString()\<close> is
  the parameter \<open>now\<close>.
\<close>

definition processText :: "jsdate \<Rightarrow> jsstring \<Rightarrow> jsstring \<Rightarrow> jsstring option \<Rightarrow> transaction" where
  "processText today now text forcedIntent =
    (let textLower = toLowerCase text;
         tipo' = (if truthy forcedIntent then forcedIntent else detectIntent textLower);
         monto' = extractAmountFromText text;
         fecha' = extractDateFromText today text;
         concepto' = extractConceptFromText text tipo';
         categoria' = (if tipo' = Some (str ''gasto'') then categorizeExpense text
                       else str ''ingreso'')
     in \<lparr>tipo = tipo', monto = monto', fecha = fecha', concepto = concepto',
         categoria = categoria', texto_completo = text, timestamp = now, items = None\<rparr>)"

section \<open>database.js\<close>

text \<open>
  The records of \<open>config.js\<close> that the stored document carries. Amounts of the
  configuration are whole numbers; a budget limit is a JavaScript number, modelled as a
  real.
\<close>

record fixed_expense =
  fe_nombre :: jsstring
  fe_monto :: nat
  fe_categoria :: jsstring
  fechaPago :: nat

record fixed_income =
  fi_nombre :: jsstring
  fi_monto :: nat
  fechaIngreso :: nat
  frecuencia :: jsstring

record financial_goal =
  fg_nombre :: jsstring
  montoObjetivo :: nat
  montoAcumulado :: nat
  fg_fecha :: jsstring

record document =
  transactions :: "transaction list"
  fixedExpenses :: "fixed_expense list"
  fixedIncomes :: "fixed_income list"
  financialGoals :: "financial_goal list"
  budget :: "(jsstring \<times> real) list"

definition config_fixedExpenses :: "fixed_expense list" where
  "config_fixedExpenses =
    [\<lparr>fe_nombre = str ''Internet ETB'', fe_monto = 120000, fe_categoria = str ''servicios'', fechaPago = 15\<rparr>,
     \<lparr>fe_nombre = str ''Claude IA'', fe_monto = 50000, fe_categoria = str ''entretenimiento'', fechaPago = 5\<rparr>,
     \<lparr>fe_nombre = str ''Bodytech'', fe_monto = 80000, fe_categoria = str ''salud'', fechaPago = 10\<rparr>,
     \<lparr>fe_nombre = str ''WOM'', fe_monto = 60000, fe_categoria = str ''servicios'', fechaPago = 20\<rparr>]"

definition config_financialGoals :: "financial_goal list" where
  "config_financialGoals =
    [\<lparr>fg_nombre = str ''Pantalla nueva'', montoObjetivo = 600000, montoAcumulado = 0,
       fg_fecha = str ''2024-12-31''\<rparr>,
     \<lparr>fg_nombre = str ''Semestre universitario'', montoObjetivo = 4000000, montoAcumulado = 0,
       fg_fecha = str ''2025-01-15''\<rparr>]"

definition config_monthlyBudget :: "(jsstring \<times> real) list" where
  "config_monthlyBudget =
    [(str ''supermercado'', 450000), (str ''restaurante'', 300000), (str ''transporte'', 200000),
     (str ''servicios'', 310000), (str ''entretenimiento'', 150000), (str ''salud'', 100000),
     (str ''tecnolog'' @ [237] @ str ''a'', 200000), (str ''snacks'', 80000),
     (str ''educaci'' @ [243] @ str ''n'', 400000), (str ''otros'', 100000)]"

definition config_fixedIncomes :: "fixed_income list" where
  "config_fixedIncomes =
    [\<lparr>fi_nombre = str ''Salario'', fi_monto = 1718010, fechaIngreso = 15,
       frecuencia = str ''mensual''\<rparr>]"

text \<open>
  The file \<open>DB_FILE\<close>. Its content is the document that \<open>JSON.parse\<close> reads from it;
  \<open>None\<close> is a file that is missing or does not parse, where \<open>readFileSync\<close> or
  \<open>JSON.parse\<close> throws. A write can fail (\<open>writeFileSync\<close> throws): whether it goes
  through is the environment's, the flag \<open>writable\<close>.
\<close>

type_synonym db_file = "document option"

definition loadDatabase :: "db_file \<Rightarrow> document" where
  "loadDatabase f =
    (case f of
       Some d \<Rightarrow> d
     | None \<Rightarrow> \<lparr>transactions = [], fixedExpenses = config_fixedExpenses,
                fixedIncomes = config_fixedIncomes, financialGoals = config_financialGoals,
                budget = config_monthlyBudget\<rparr>)"

definition saveDatabase :: "bool \<Rightarrow> db_file \<Rightarrow> document \<Rightarrow> db_file \<times> bool" where
  "saveDatabase writable f data = (if writable then (Some data, True) else (f, False))"

definition registerTransaction :: "bool \<Rightarrow> db_file \<Rightarrow> transaction \<Rightarrow> db_file" where
  "registerTransaction writable f data =
    (let db = loadDatabase f;
         db = db\<lparr>transactions := transactions db @ [data]\<rparr>
     in fst (saveDatabase writable f db))"

section \<open>The budget update of the expense controller\<close>

text \<open>
  \<open>obj[key] = v\<close> on an object kept as its entries in order: an existing key keeps its
  place, a new key goes last.
\<close>

fun set_property :: "('k \<times> 'v) list \<Rightarrow> 'k \<Rightarrow> 'v \<Rightarrow> ('k \<times> 'v) list" where
  "set_property [] k v = [(k, v)]"
| "set_property ((k', v') # es) k v =
     (if k' = k then (k, v) # es else (k', v') # set_property es k v)"

text \<open>
  The pattern of a budget update,
  \<^verbatim>\<open>/(?:presupuesto|asignar|destinar)\s+(?:para|a|en)?\s+(.+?)\s+(?:de)?\s*\$?\s*([0-9.,]+)/i\<close>.
\<close>

definition budget_pattern :: regex where
  "budget_pattern =
    seq [alts [liti (str ''presupuesto''), liti (str ''asignar''), liti (str ''destinar'')],
         many1 is_space,
         Opt (alts [liti (str ''para''), liti (str ''a''), liti (str ''en'')]),
         many1 is_space, Grp 1 (many1_lazy is_dot), many1 is_space, Opt (liti (str ''de'')),
         Star is_space, Opt dollar, Star is_space, Grp 2 (many1 is_amount_char)]"

text \<open>
  The two loops that look for the best category. The state of the loops is the pair
  \<open>(bestCategory, bestScore)\<close>; \<open>None\<close> is \<open>null\<close>.
\<close>

type_synonym best = "jsstring option \<times> nat"

fun keyword_loop :: "jsstring \<Rightarrow> jsstring \<Rightarrow> jsstring list \<Rightarrow> best \<Rightarrow> best" where
  "keyword_loop categoryName category [] (bestCategory, bestScore) = (bestCategory, bestScore)"
| "keyword_loop categoryName category (keyword # keywords) (bestCategory, bestScore) =
     (if str_includes categoryName keyword then
        (let score = length keyword
         in if bestScore < score
            then keyword_loop categoryName category keywords (Some category, score)
            else keyword_loop categoryName category keywords (bestCategory, bestScore))
      else keyword_loop categoryName category keywords (bestCategory, bestScore))"

definition key_step :: "jsstring \<Rightarrow> jsstring \<Rightarrow> best \<Rightarrow> best" where
  "key_step categoryName category b =
    (case b of (bestCategory, bestScore) \<Rightarrow>
       if str_includes categoryName category \<or> str_includes category categoryName then
         (let score = min (length category) (length categoryName)
          in if bestScore < score then (Some category, score) else (bestCategory, bestScore))
       else (bestCategory, bestScore))"

fun category_loop :: "jsstring \<Rightarrow> (jsstring \<times> jsstring list) list \<Rightarrow> best \<Rightarrow> best" where
  "category_loop categoryName [] b = b"
| "category_loop categoryName ((category, keywords) # rest) b =
     category_loop categoryName rest
       (keyword_loop categoryName category keywords (key_step categoryName category b))"

text \<open>
  What \<open>processBudget\<close> does: it sends the budget status, or updates one entry of the
  budget and confirms, or answers that no category was identified. A match of the pattern
  always has both groups; without them \<open>categoryMatch[1].trim()\<close> would throw.
  \<open>if (bestCategory)\<close> is false for \<open>null\<close> and for an empty key.
  \<open>parseFloat\<close> is a parameter.
\<close>

datatype budget_outcome =
    SentBudgetStatus
  | BudgetUpdated jsstring real
  | CategoryNotIdentified
  | Threw

definition processBudget ::
  "(jsstring \<Rightarrow> real) \<Rightarrow> bool \<Rightarrow> db_file \<Rightarrow> jsstring \<Rightarrow> budget_outcome \<times> db_file" where
  "processBudget parseFloat writable f msg_text =
    (let text = toLowerCase msg_text
     in if str_includes text (str ''ver'') \<or> str_includes text (str ''estado'')
           \<or> str_includes text (str ''consultar'')
        then (SentBudgetStatus, f)
        else
          (case search budget_pattern text of
             None \<Rightarrow> (SentBudgetStatus, f)
           | Some (i, rest, categoryMatch) \<Rightarrow>
              (case (categoryMatch 1, categoryMatch 2) of
                 (Some g1, Some g2) \<Rightarrow>
                  (let categoryName = toLowerCase (trim g1);
                       amount = parseFloat (replace_str g2 (str '','') (str ''.''));
                       (bestCategory, bestScore) =
                          category_loop categoryName expenseCategories (None, 0)
                   in case bestCategory of
                        None \<Rightarrow> (CategoryNotIdentified, f)
                      | Some best \<Rightarrow>
                          if best = [] then (CategoryNotIdentified, f)
                          else
                            (let db = loadDatabase f;
                                 db = db\<lparr>budget := set_property (budget db) best amount\<rparr>
                             in (BudgetUpdated best amount, fst (saveDatabase writable f db))))
               | _ \<Rightarrow> (Threw, f))))"

section \<open>The total of a receipt\<close>

text \<open>
  The patterns of \<open>extractAmount\<close> in the receipt controller,
  \<^verbatim>\<open>/TOTAL\s*[\$E]?\s*([0-9.,]+)/i\<close>,
  \<^verbatim>\<open>/IMPORTE\s*[\$E]?\s*([0-9.,]+)/i\<close>,
  \<^verbatim>\<open>/TOTAL\s*:?\s*[\$E]?\s*([0-9.,]+)/i\<close> and
  \<^verbatim>\<open>/[\$E]\s*([0-9.,]+)/\<close>, where \<open>E\<close> stands for the euro sign.
\<close>

definition is_currency :: "jschar \<Rightarrow> bool" where
  "is_currency x = (x = 36 \<or> x = 8364)"

definition receipt_patterns :: "regex list" where
  "receipt_patterns =
    [seq [liti (str ''TOTAL''), Star is_space, Opt (Chr is_currency), Star is_space,
          Grp 1 (many1 is_amount_char)],
     seq [liti (str ''IMPORTE''), Star is_space, Opt (Chr is_currency),
          Star is_space, Grp 1 (many1 is_amount_char)],
     seq [liti (str ''TOTAL''), Star is_space, Opt (Chr (\<lambda>x. x = 58)), Star is_space,
          Opt (Chr is_currency), Star is_space, Grp 1 (many1 is_amount_char)],
     seq [Chr is_currency, Star is_space, Grp 1 (many1 is_amount_char)]]"

definition extractAmount :: "jsstring \<Rightarrow> jsstring option" where
  "extractAmount text = for_return (amount_of_pattern text) receipt_patterns"

section \<open>Notions of the specification\<close>

text \<open>
  The text contains, in any letter case, a keyword of the list: the test of the inner loop
  of \<open>categorizeExpense\<close>.
\<close>

definition keyword_hit :: "jsstring \<Rightarrow> jsstring list \<Rightarrow> bool" where
  "keyword_hit text keywords =
    list_ex (\<lambda>keyword. str_includes (toLowerCase text) (toLowerCase keyword)) keywords"

text \<open>A date of the calendar: a month from 0 to 11 and a day that the month has.\<close>

definition valid_date :: "jsdate \<Rightarrow> bool" where
  "valid_date d =
    (getMonth d < 12 \<and> 1 \<le> getDate d \<and> getDate d \<le> days_in_month (getFullYear d) (getMonth d))"

text \<open>
  The day before a date, as the calendar has it: the day before the first of a month is
  the last day of the month before, the day before the first of January is the 31st of
  December of the year before.
\<close>

definition day_before :: "jsdate \<Rightarrow> jsdate" where
  "day_before d =
    (if 1 < getDate d then d\<lparr>getDate := getDate d - 1\<rparr>
     else if 0 < getMonth d then
       d\<lparr>getMonth := getMonth d - 1,
         getDate := days_in_month (getFullYear d) (getMonth d - 1)\<rparr>
     else \<lparr>getFullYear = getFullYear d - 1, getMonth = 11, getDate = 31\<rparr>)"



text \<open>
  The relations of a category name typed by the user with a category: one of the two is a
  substring of the other (the test on the key), and the name contains a keyword of the
  category (the test on the keywords); and the relation the specification words, the name
  is a substring of a keyword of the category.
\<close>

definition key_related :: "jsstring \<Rightarrow> jsstring \<Rightarrow> bool" where
  "key_related categoryName category =
    (str_includes categoryName category \<or> str_includes category categoryName)"

definition contains_keyword :: "jsstring \<Rightarrow> jsstring list \<Rightarrow> bool" where
  "contains_keyword categoryName keywords =
    list_ex (\<lambda>keyword. str_includes categoryName keyword) keywords"

definition within_keyword :: "jsstring \<Rightarrow> jsstring list \<Rightarrow> bool" where
  "within_keyword categoryName keywords =
    list_ex (\<lambda>keyword. str_includes keyword categoryName) keywords"

text \<open>The message of \<open>processBudget\<close> is not a query of the budget status.\<close>

definition status_query :: "jsstring \<Rightarrow> bool" where
  "status_query text =
    (str_includes text (str ''ver'') \<or> str_includes text (str ''estado'')
     \<or> str_includes text (str ''consultar''))"




section \<open>Properties of the store\<close>

text \<open>
  Claim C10. When the write goes through, the document read back after
  \<open>registerTransaction\<close> has the transactions read before it, in their order and with
  their values, followed by the new record as last element; the fields fixedExpenses,
  fixedIncomes, financialGoals and budget read back as before. When the write fails the
  file is as it was.
\<close>

theorem registerTransaction_appends:
  "loadDatabase (registerTransaction True f data) =
     (loadDatabase f)\<lparr>transactions := transactions (loadDatabase f) @ [data]\<rparr>
   \<and> transactions (loadDatabase (registerTransaction True f data)) =
       transactions (loadDatabase f) @ [data]
   \<and> last (transactions (loadDatabase (registerTransaction True f data))) = data
   \<and> take (length (transactions (loadDatabase f)))
        (transactions (loadDatabase (registerTransaction True f data))) =
       transactions (loadDatabase f)
   \<and> fixedExpenses (loadDatabase (registerTransaction True f data)) =
       fixedExpenses (loadDatabase f)
   \<and> fixedIncomes (loadDatabase (registerTransaction True f data)) =
       fixedIncomes (loadDatabase f)
   \<and> financialGoals (loadDatabase (registerTransaction True f data)) =
       financialGoals (loadDatabase f)
   \<and> budget (loadDatabase (registerTransaction True f data)) = budget (loadDatabase f)
   \<and> registerTransaction False f data = f"
  by (simp add: registerTransaction_def saveDatabase_def loadDatabase_def Let_def
      split: option.splits)

section \<open>Loops that return and the matcher\<close>

lemma for_return_None:
  "(\<And>x. x \<in> set xs \<Longrightarrow> body x = None) \<Longrightarrow> for_return body xs = None"
  by (induction xs) auto

lemma for_return_None_iff:
  "for_return body xs = None \<longleftrightarrow> (\<forall>x \<in> set xs. body x = None)"
  by (induction xs) (auto split: option.splits)

lemma for_return_SomeD:
  "for_return body xs = Some r \<Longrightarrow> \<exists>x \<in> set xs. body x = Some r"
  by (induction xs) (auto split: option.splits)

lemma for_return_first:
  "i < length xs \<Longrightarrow> body (xs ! i) = Some r \<Longrightarrow> (\<And>j. j < i \<Longrightarrow> body (xs ! j) = None)
   \<Longrightarrow> for_return body xs = Some r"
proof (induction xs arbitrary: i)
  case Nil
  then show ?case by simp
next
  case (Cons x xs)
  show ?case
  proof (cases i)
    case 0
    with Cons.prems show ?thesis by simp
  next
    case (Suc k)
    have "body x = None" using Cons.prems(3) [of 0] Suc by simp
    moreover have "for_return body xs = Some r"
    proof (rule Cons.IH [of k])
      show "k < length xs" using Cons.prems(1) Suc by simp
      show "body (xs ! k) = Some r" using Cons.prems(2) Suc by simp
      fix j assume "j < k"
      then show "body (xs ! j) = None" using Cons.prems(3) [of "Suc j"] Suc by simp
    qed
    ultimately show ?thesis by simp
  qed
qed

lemma rmatch_suffix:
  "(s', c') \<in> set (rmatch r s c) \<Longrightarrow> \<exists>w. s = w @ s'"
proof (induction r s c arbitrary: s' c' rule: rmatch.induct)
  case (3 a b s c)
  then obtain s1 c1 where a: "(s1, c1) \<in> set (rmatch a s c)"
    and b: "(s', c') \<in> set (rmatch b s1 c1)"
    by auto
  from "3.IH"(1) [OF a] obtain w1 where "s = w1 @ s1" by blast
  moreover from "3.IH"(2) [OF a refl b] obtain w2 where "s1 = w2 @ s'" by blast
  ultimately have "s = (w1 @ w2) @ s'" by simp
  then show ?case by blast
next
  case (7 p x xs c)
  then show ?case
    by (auto split: if_splits) (metis append_Cons)
next
  case (9 p x xs c)
  then show ?case
    by (auto split: if_splits) (metis append_Cons)
qed (auto split: if_splits)

lemma search_SomeD:
  "search r s = Some (i, s', c) \<Longrightarrow>
     i \<le> length s \<and> (\<exists>rest. rmatch r (drop i s) Map.empty = (s', c) # rest)"
proof (induction s arbitrary: i)
  case Nil
  then show ?case by (auto split: list.splits)
next
  case (Cons x t)
  show ?case
  proof (cases "rmatch r (x # t) Map.empty")
    case Nil
    with Cons.prems obtain k where k: "search r t = Some (k, s', c)" and i: "i = Suc k"
      by auto
    from Cons.IH [OF k] i show ?thesis by simp
  next
    case (Cons a list)
    with Cons.prems show ?thesis by (cases a) auto
  qed
qed

lemma rmatch_Chr_D:
  "(s', c') \<in> set (rmatch (Chr p) s c) \<Longrightarrow> \<exists>x. s = x # s' \<and> p x \<and> c' = c"
  by (cases s) (auto split: if_splits)

lemma rmatch_Star_caps:
  "(s', c') \<in> set (rmatch (Star p) s c) \<Longrightarrow> c' = c"
  by (induction s) (auto split: if_splits)

lemma rmatch_Star_all:
  "(s', c') \<in> set (rmatch (Star p) s c) \<Longrightarrow> \<exists>w. s = w @ s' \<and> list_all p w"
proof (induction s)
  case Nil
  then show ?case by simp
next
  case (Cons x xs)
  show ?case
  proof (cases "(s', c') \<in> set (rmatch (Star p) xs c) \<and> p x")
    case True
    with Cons.IH obtain w where "xs = w @ s'" "list_all p w" by blast
    with True have "x # xs = (x # w) @ s' \<and> list_all p (x # w)" by simp
    then show ?thesis by blast
  next
    case False
    with Cons.prems have "s' = x # xs" by (auto split: if_splits)
    then have "x # xs = [] @ s' \<and> list_all p []" by simp
    then show ?thesis by blast
  qed
qed

lemma rmatch_plus_D:
  assumes "(s', c') \<in> set (rmatch (many1 p) s c)"
  shows "\<exists>w. w \<noteq> [] \<and> s = w @ s' \<and> list_all p w \<and> c' = c"
proof -
  from assms obtain s1 c1 where a: "(s1, c1) \<in> set (rmatch (Chr p) s c)"
    and b: "(s', c') \<in> set (rmatch (Star p) s1 c1)"
    by (auto simp: many1_def)
  from rmatch_Chr_D [OF a] obtain x where x: "s = x # s1" "p x" "c1 = c" by blast
  from rmatch_Star_all [OF b] obtain w where w: "s1 = w @ s'" "list_all p w" by blast
  from rmatch_Star_caps [OF b] have "c' = c1" .
  with x w have "x # w \<noteq> [] \<and> s = (x # w) @ s' \<and> list_all p (x # w) \<and> c' = c" by simp
  then show ?thesis by blast
qed

lemma rmatch_Grp_plus_D:
  assumes "(s', c') \<in> set (rmatch (Grp i (many1 p)) s c)"
  shows "\<exists>w. w \<noteq> [] \<and> s = w @ s' \<and> list_all p w \<and> c' = c(i \<mapsto> w)"
proof -
  from assms obtain c0 where a: "(s', c0) \<in> set (rmatch (many1 p) s c)"
    and c': "c' = c0(i \<mapsto> take (length s - length s') s)"
    by auto
  from rmatch_plus_D [OF a] obtain w where w: "w \<noteq> []" "s = w @ s'" "list_all p w" "c0 = c"
    by blast
  then have "take (length s - length s') s = w" by simp
  with w c' have "w \<noteq> [] \<and> s = w @ s' \<and> list_all p w \<and> c' = c(i \<mapsto> w)" by simp
  then show ?thesis by (rule exI)
qed

section \<open>The amount of a message\<close>

lemma rmatch_seq_Cons:
  "(s', c') \<in> set (rmatch (seq (r # rs)) s c) \<longleftrightarrow>
     (\<exists>s1 c1. (s1, c1) \<in> set (rmatch r s c) \<and> (s', c') \<in> set (rmatch (seq rs) s1 c1))"
  by (auto simp: seq_def)

lemma seq_last_group:
  "(s', c') \<in> set (rmatch (seq (rs @ [Grp 1 (many1 p)])) s c) \<Longrightarrow>
     \<exists>w. w \<noteq> [] \<and> list_all p w \<and> c' 1 = Some w"
proof (induction rs arbitrary: s c)
  case Nil
  then have "(s', c') \<in> set (rmatch (Grp 1 (many1 p)) s c)"
    by (auto simp: seq_def)
  from rmatch_Grp_plus_D [OF this] show ?case by auto
next
  case (Cons r rs)
  then obtain s1 c1 where "(s', c') \<in> set (rmatch (seq (rs @ [Grp 1 (many1 p)])) s1 c1)"
    by (auto simp: rmatch_seq_Cons)
  then show ?case by (rule Cons.IH)
qed

lemmas rx_defs = seq_def liti_def lit_def many1_def many1_lazy_def dollar_def str_def
  is_space_def is_amount_char_def is_digit_def is_date_sep_def is_word_def is_dot_def
  ci_def canonicalize_def upper_unit_def digits_1_2_def digits_2_4_def

lemma amount_of_pattern_group:
  assumes "search (seq (rs @ [Grp 1 (many1 is_amount_char)])) text = Some (i, rest, m)"
  shows "\<exists>g. m 1 = Some g \<and> g \<noteq> [] \<and> list_all is_amount_char g
           \<and> amount_of_pattern text (seq (rs @ [Grp 1 (many1 is_amount_char)])) =
               Some (replace_str (trim g) (str '','') (str ''.''))"
proof -
  from search_SomeD [OF assms] obtain t where
    "(rest, m) \<in> set (rmatch (seq (rs @ [Grp 1 (many1 is_amount_char)])) (drop i text) Map.empty)"
    by auto
  from seq_last_group [OF this] obtain w where w: "w \<noteq> []" "list_all is_amount_char w" "m 1 = Some w"
    by blast
  with assms show ?thesis by (simp add: amount_of_pattern_def)
qed

theorem extractAmountFromText_pattern1:
  "(search (amountPatterns ! 0) text = Some (i, rest, m) \<longrightarrow>
      (\<exists>g. m 1 = Some g \<and> g \<noteq> [] \<and> list_all is_amount_char g
         \<and> extractAmountFromText text = Some (replace_str (trim g) (str '','') (str ''.''))))
   \<and> ((\<forall>pattern \<in> set amountPatterns. search pattern text = None) \<longrightarrow>
        extractAmountFromText text = None)"
proof (intro conjI impI)
  assume a: "search (amountPatterns ! 0) text = Some (i, rest, m)"
  have p: "amountPatterns ! 0 = seq ([dollar, Star is_space] @ [Grp 1 (many1 is_amount_char)])"
    by (simp add: amountPatterns_def)
  from a have "search (seq ([dollar, Star is_space] @ [Grp 1 (many1 is_amount_char)])) text
      = Some (i, rest, m)"
    by (simp only: p)
  from amount_of_pattern_group [OF this] obtain g where
    g: "m 1 = Some g" "g \<noteq> []" "list_all is_amount_char g"
      "amount_of_pattern text (amountPatterns ! 0) = Some (replace_str (trim g) (str '','') (str ''.''))"
    unfolding p by blast
  have "extractAmountFromText text = amount_of_pattern text (amountPatterns ! 0)"
    using g(4) by (simp add: extractAmountFromText_def amountPatterns_def)
  with g show "\<exists>g. m 1 = Some g \<and> g \<noteq> [] \<and> list_all is_amount_char g
         \<and> extractAmountFromText text = Some (replace_str (trim g) (str '','') (str ''.''))"
    by simp
next
  assume "\<forall>pattern \<in> set amountPatterns. search pattern text = None"
  then show "extractAmountFromText text = None"
    by (simp add: extractAmountFromText_def for_return_None_iff amount_of_pattern_def)
qed

theorem extractAmountFromText_pattern1_witness:
  "search (amountPatterns ! 0) (str ''pago $ 1,5,0 pesos'') =
      Some (5, str '' pesos'', [1 \<mapsto> str ''1,5,0''])
   \<and> search (amountPatterns ! 1) (str ''pago $ 1,5,0 pesos'') \<noteq> None
   \<and> search (amountPatterns ! 4) (str ''pago $ 1,5,0 pesos'') \<noteq> None
   \<and> extractAmountFromText (str ''pago $ 1,5,0 pesos'') = Some (str ''1.5,0'')
   \<and> list_all (\<lambda>pattern. search pattern (str ''hola 5'') = None) amountPatterns
   \<and> extractAmountFromText (str ''hola 5'') = None"
proof -
  have a: "search (amountPatterns ! 0) (str ''pago $ 1,5,0 pesos'') =
      Some (5, str '' pesos'', [1 \<mapsto> str ''1,5,0''])"
    by (simp add: amountPatterns_def rx_defs)
  have b: "search (amountPatterns ! 1) (str ''pago $ 1,5,0 pesos'') \<noteq> None"
    by (simp add: amountPatterns_def rx_defs)
  have c: "search (amountPatterns ! 4) (str ''pago $ 1,5,0 pesos'') \<noteq> None"
    by (simp add: amountPatterns_def rx_defs)
  have d: "list_all (\<lambda>pattern. search pattern (str ''hola 5'') = None) amountPatterns"
    by (simp add: amountPatterns_def rx_defs)
  have t: "replace_str (trim (str ''1,5,0'')) (str '','') (str ''.'') = str ''1.5,0''"
    by (simp add: trim_def str_def is_space_def)
  from a t
    extractAmountFromText_pattern1
      [of "str ''pago $ 1,5,0 pesos''" 5 "str '' pesos''" "[1 \<mapsto> str ''1,5,0'']"]
  have e: "extractAmountFromText (str ''pago $ 1,5,0 pesos'') = Some (str ''1.5,0'')"
    by simp
  from d extractAmountFromText_pattern1 [of "str ''hola 5''"]
  have f: "extractAmountFromText (str ''hola 5'') = None"
    by (simp add: list_all_iff)
  from a b c d e f show ?thesis by blast
qed

section \<open>Categories and intents\<close>

lemma for_return_if:
  "for_return (\<lambda>x. if P x then Some r else None) xs = (if list_ex P xs then Some r else None)"
  by (induction xs) auto

lemma for_return_Some_index:
  "for_return body xs = Some r \<Longrightarrow>
     \<exists>k < length xs. body (xs ! k) = Some r \<and> (\<forall>j < k. body (xs ! j) = None)"
proof (induction xs)
  case Nil
  then show ?case by simp
next
  case (Cons x xs)
  show ?case
  proof (cases "body x")
    case (Some r')
    with Cons.prems have "0 < length (x # xs) \<and> body ((x # xs) ! 0) = Some r
        \<and> (\<forall>j < 0. body ((x # xs) ! j) = None)"
      by simp
    then show ?thesis by (rule exI [of _ 0])
  next
    case None
    with Cons.prems have "for_return body xs = Some r" by simp
    from Cons.IH [OF this] obtain k where k: "k < length xs" "body (xs ! k) = Some r"
      "\<forall>j < k. body (xs ! j) = None"
      by blast
    have "\<forall>j < Suc k. body ((x # xs) ! j) = None"
    proof (intro allI impI)
      fix j assume "j < Suc k"
      then show "body ((x # xs) ! j) = None"
        using None k(3) by (cases j) auto
    qed
    with k have "Suc k < length (x # xs) \<and> body ((x # xs) ! Suc k) = Some r
        \<and> (\<forall>j < Suc k. body ((x # xs) ! j) = None)"
      by simp
    then show ?thesis by (rule exI [of _ "Suc k"])
  qed
qed

lemma categorizeExpense_alt:
  "categorizeExpense text =
    (case for_return (\<lambda>e. if keyword_hit text (snd e) then Some (fst e) else None)
            expenseCategories of
       Some category \<Rightarrow> category | None \<Rightarrow> str ''otros'')"
proof -
  have eq: "for_return (\<lambda>(category, keywords).
            for_return
              (\<lambda>keyword. if str_includes (toLowerCase text) (toLowerCase keyword)
                          then Some category else None) keywords) expenseCategories
        = for_return (\<lambda>e. if keyword_hit text (snd e) then Some (fst e) else None)
            expenseCategories"
    by (rule arg_cong [where f = "\<lambda>b. for_return b expenseCategories"])
       (auto simp: fun_eq_iff for_return_if keyword_hit_def)
  show ?thesis
    unfolding categorizeExpense_def Let_def eq ..
qed

lemma distinct_categories: "distinct (map fst expenseCategories)"
  by (simp add: expenseCategories_def str_def)

lemma length_expenseCategories: "length expenseCategories = 10"
  by (simp add: expenseCategories_def)

text \<open>
  Claim C6. Of two categories that both have a keyword in the text (in any letter case),
  the one declared later is never returned: the result is a category declared no later
  than the earlier of the two that has a keyword in the text. The first category in the
  order of the configuration that has a keyword in the text is the one returned, and
  \<open>otros\<close> is returned when no category has one.
\<close>

theorem categorizeExpense_order_stable:
  "(i < j \<and> j < length expenseCategories
      \<and> keyword_hit text (snd (expenseCategories ! i))
      \<and> keyword_hit text (snd (expenseCategories ! j)) \<longrightarrow>
        categorizeExpense text \<noteq> fst (expenseCategories ! j)
        \<and> (\<exists>k \<le> i. categorizeExpense text = fst (expenseCategories ! k)
              \<and> keyword_hit text (snd (expenseCategories ! k))))
   \<and> (i < length expenseCategories \<and> keyword_hit text (snd (expenseCategories ! i))
        \<and> (\<forall>k < i. \<not> keyword_hit text (snd (expenseCategories ! k))) \<longrightarrow>
        categorizeExpense text = fst (expenseCategories ! i))
   \<and> ((\<forall>k < length expenseCategories. \<not> keyword_hit text (snd (expenseCategories ! k))) \<longrightarrow>
        categorizeExpense text = str ''otros'')"
proof (intro conjI impI)
  let ?body = "\<lambda>e. if keyword_hit text (snd e) then Some (fst e) else None"
  {
    assume h: "i < j \<and> j < length expenseCategories
      \<and> keyword_hit text (snd (expenseCategories ! i))
      \<and> keyword_hit text (snd (expenseCategories ! j))"
    then have "expenseCategories ! i \<in> set expenseCategories"
      "?body (expenseCategories ! i) \<noteq> None"
      by simp_all
    then have "for_return ?body expenseCategories \<noteq> None"
      unfolding for_return_None_iff by (intro notI) (drule (1) bspec, simp)
    then obtain r where r: "for_return ?body expenseCategories = Some r" by blast
    from for_return_Some_index [OF r] obtain k where k: "k < length expenseCategories"
      "?body (expenseCategories ! k) = Some r" "\<forall>j < k. ?body (expenseCategories ! j) = None"
      by blast
    have ki: "k \<le> i"
    proof (rule ccontr)
      assume "\<not> k \<le> i"
      then have "i < k" by simp
      with k(3) have "?body (expenseCategories ! i) = None" by blast
      with h show False by simp
    qed
    from k(2) have hit: "keyword_hit text (snd (expenseCategories ! k))"
      and rk: "r = fst (expenseCategories ! k)"
      by (auto split: if_splits)
    with r have res: "categorizeExpense text = fst (expenseCategories ! k)"
      by (simp add: categorizeExpense_alt)
    have "k \<noteq> j" using ki h by simp
    with distinct_categories k(1) h
    have "fst (expenseCategories ! k) \<noteq> fst (expenseCategories ! j)"
      by (metis (no_types, lifting) distinct_conv_nth length_map nth_map)
    with res show "categorizeExpense text \<noteq> fst (expenseCategories ! j)" by simp
    from res hit ki
    show "\<exists>k \<le> i. categorizeExpense text = fst (expenseCategories ! k)
              \<and> keyword_hit text (snd (expenseCategories ! k))"
      by blast
  }
  {
    assume h: "i < length expenseCategories \<and> keyword_hit text (snd (expenseCategories ! i))
        \<and> (\<forall>k < i. \<not> keyword_hit text (snd (expenseCategories ! k)))"
    then have "for_return ?body expenseCategories = Some (fst (expenseCategories ! i))"
      by (intro for_return_first [of i]) auto
    then show "categorizeExpense text = fst (expenseCategories ! i)"
      by (simp add: categorizeExpense_alt)
  }
  {
    assume "\<forall>k < length expenseCategories. \<not> keyword_hit text (snd (expenseCategories ! k))"
    then have "\<forall>e \<in> set expenseCategories. \<not> keyword_hit text (snd e)"
      by (metis in_set_conv_nth)
    then have "for_return ?body expenseCategories = None"
      by (simp add: for_return_None_iff)
    then show "categorizeExpense text = str ''otros''"
      by (simp add: categorizeExpense_alt)
  }
qed

text \<open>
  Claim C5. When the lowered text contains no keyword of any intent group,
  \<open>getIntent\<close> returns \<open>gasto\<close> if \<open>extractAmountFromText\<close> finds an amount and
  \<open>null\<close>, the unknown intent, otherwise. On every text its result is one of
  \<open>gasto\<close>, \<open>ingreso\<close>, \<open>meta\<close>, \<open>reporte\<close>, \<open>presupuesto\<close> and \<open>null\<close>.
\<close>

theorem getIntent_default:
  "((\<forall>(intent, keywords) \<in> set intentKeywords.
        \<forall>keyword \<in> set keywords. \<not> str_includes (toLowerCase text) keyword) \<longrightarrow>
       getIntent text =
         (if extractAmountFromText text \<noteq> None then Some (str ''gasto'') else None))
   \<and> getIntent text \<in>
       {Some (str ''gasto''), Some (str ''ingreso''), Some (str ''meta''),
        Some (str ''reporte''), Some (str ''presupuesto''), None}"
proof (intro conjI impI)
  let ?inner = "\<lambda>intent keywords.
      for_return (\<lambda>keyword. if str_includes (toLowerCase text) keyword then Some intent else None)
        keywords"
  let ?loop = "for_return (\<lambda>(intent, keywords). ?inner intent keywords) intentKeywords"
  have g: "getIntent text =
      (case ?loop of Some intent \<Rightarrow> Some intent
       | None \<Rightarrow> if extractAmountFromText text \<noteq> None then Some (str ''gasto'') else None)"
    by (simp add: getIntent_def Let_def)
  {
    assume "\<forall>(intent, keywords) \<in> set intentKeywords.
        \<forall>keyword \<in> set keywords. \<not> str_includes (toLowerCase text) keyword"
    then have "?loop = None"
      by (auto simp: for_return_None_iff)
    with g show "getIntent text =
         (if extractAmountFromText text \<noteq> None then Some (str ''gasto'') else None)"
      by simp
  }
  have keys: "fst ` set intentKeywords =
      {str ''gasto'', str ''ingreso'', str ''meta'', str ''reporte'', str ''presupuesto''}"
    by (simp add: intentKeywords_def)
  have "\<And>r. ?loop = Some r \<Longrightarrow> r \<in> fst ` set intentKeywords"
  proof -
    fix r assume "?loop = Some r"
    from for_return_SomeD [OF this] obtain intent kws where
      e: "(intent, kws) \<in> set intentKeywords" and i: "?inner intent kws = Some r"
      by auto
    from for_return_SomeD [OF i] have "r = intent" by (auto split: if_splits)
    with e show "r \<in> fst ` set intentKeywords" by force
  qed
  then have "\<And>r. ?loop = Some r \<Longrightarrow>
      r \<in> {str ''gasto'', str ''ingreso'', str ''meta'', str ''reporte'', str ''presupuesto''}"
    unfolding keys .
  with g show "getIntent text \<in>
       {Some (str ''gasto''), Some (str ''ingreso''), Some (str ''meta''),
        Some (str ''reporte''), Some (str ''presupuesto''), None}"
    by (cases ?loop) (auto split: if_splits)
qed

section \<open>Dates\<close>

lemma days_in_month_bounds: "28 \<le> days_in_month y m \<and> days_in_month y m \<le> 31"
  by (simp add: days_in_month_def)

lemma set_day_in_month:
  "1 \<le> n \<Longrightarrow> n \<le> int (days_in_month y m) \<Longrightarrow>
     set_day y m n = \<lparr>getFullYear = y, getMonth = m, getDate = nat n\<rparr>"
  by (subst set_day.simps) simp

lemma set_day_zero:
  "set_day y m 0 =
     (if m = 0 then \<lparr>getFullYear = y - 1, getMonth = 11, getDate = 31\<rparr>
      else \<lparr>getFullYear = y, getMonth = m - 1, getDate = days_in_month y (m - 1)\<rparr>)"
proof -
  have b: "1 \<le> int (days_in_month y (m - Suc 0))"
    using days_in_month_bounds [of y "m - Suc 0"] by simp
  have c: "(31::int) \<le> int (days_in_month (y - 1) 11)"
    by (simp add: days_in_month_def)
  show ?thesis
    by (subst set_day.simps) (simp add: set_day_in_month [OF b] set_day_in_month [OF _ c])
qed

lemma setDate_yesterday:
  assumes "valid_date today"
  shows "setDate today (int (getDate today) - 1) = day_before today"
proof (cases "1 < getDate today")
  case True
  with assms have "1 \<le> int (getDate today) - 1"
    "int (getDate today) - 1 \<le> int (days_in_month (getFullYear today) (getMonth today))"
    by (simp_all add: valid_date_def)
  from set_day_in_month [OF this] True show ?thesis
    by (simp add: setDate_def day_before_def)
next
  case False
  with assms have d: "getDate today = 1" by (simp add: valid_date_def)
  then show ?thesis
    by (simp add: setDate_def set_day_zero day_before_def)
qed











lemma startsWith_iff: "startsWith s p \<longleftrightarrow> (\<exists>q. s = p @ q)"
  by (induction s p rule: startsWith.induct) auto

lemma str_includes_iff: "str_includes s sub \<longleftrightarrow> (\<exists>p q. s = p @ sub @ q)"
proof (induction s)
  case Nil
  then show ?case by simp
next
  case (Cons x xs)
  show ?case
  proof
    assume "str_includes (x # xs) sub"
    then consider "startsWith (x # xs) sub" | "str_includes xs sub" by auto
    then show "\<exists>p q. x # xs = p @ sub @ q"
    proof cases
      case 1
      then obtain q where "x # xs = [] @ sub @ q" by (auto simp: startsWith_iff)
      then show ?thesis by blast
    next
      case 2
      with Cons.IH obtain p q where "xs = p @ sub @ q" by blast
      then have "x # xs = (x # p) @ sub @ q" by simp
      then show ?thesis by blast
    qed
  next
    assume "\<exists>p q. x # xs = p @ sub @ q"
    then obtain p q where pq: "x # xs = p @ sub @ q" by blast
    show "str_includes (x # xs) sub"
    proof (cases p)
      case Nil
      with pq have "startsWith (x # xs) sub" by (auto simp: startsWith_iff)
      then show ?thesis by simp
    next
      case (Cons a p')
      with pq have "xs = p' @ sub @ q" by simp
      with Cons.IH have "str_includes xs sub" by blast
      then show ?thesis by simp
    qed
  qed
qed

lemma anteayer_ayer:
  "str_includes s (str ''anteayer'') \<Longrightarrow> str_includes s (str ''ayer'')"
proof -
  assume "str_includes s (str ''anteayer'')"
  then obtain p q where "s = p @ str ''anteayer'' @ q" by (auto simp: str_includes_iff)
  then have "s = (p @ str ''ante'') @ str ''ayer'' @ q" by (simp add: str_def)
  then show ?thesis unfolding str_includes_iff by blast
qed

lemma extractDateFromText_no_match:
  "search datePattern0 text = None \<Longrightarrow>
     extractDateFromText today text =
       (if str_includes (toLowerCase text) (str ''hoy'') then formatDate today
        else if str_includes (toLowerCase text) (str ''ayer'')
        then formatDate (setDate today (int (getDate today) - 1))
        else formatDate today)"
  using anteayer_ayer [of "toLowerCase text"] by (auto simp: extractDateFromText_def)

lemma toLowerCase_append: "toLowerCase (a @ b) = toLowerCase a @ toLowerCase b"
  by (simp add: toLowerCase_def)

lemma str_includes_lower:
  "str_includes s sub \<Longrightarrow> str_includes (toLowerCase s) (toLowerCase sub)"
proof -
  assume "str_includes s sub"
  then obtain p q where "s = p @ sub @ q" by (auto simp: str_includes_iff)
  then have "toLowerCase s = toLowerCase p @ toLowerCase sub @ toLowerCase q"
    by (simp add: toLowerCase_append)
  then show ?thesis unfolding str_includes_iff by blast
qed

lemma lower_ayer: "toLowerCase (str ''ayer'') = str ''ayer''"
  by (simp add: toLowerCase_def lower_unit_def str_def)

text \<open>
  Claim C4. On a text that the explicit date pattern does not match, that has no
  \<open>hoy\<close> and has \<open>ayer\<close> (both looked for in the lowered text, as the code does),
  \<open>extractDateFromText\<close> returns the day before the processing date in the form
  year-month-day: the last day of the month before on the first of a month, the 31st of
  December of the year before on the first of January. A text that contains \<open>ayer\<close>
  as written contains it when lowered.
\<close>

theorem extractDateFromText_yesterday:
  "(valid_date today \<and> search datePattern0 text = None
      \<and> \<not> str_includes (toLowerCase text) (str ''hoy'')
      \<and> str_includes (toLowerCase text) (str ''ayer'') \<longrightarrow>
        extractDateFromText today text = formatDate (day_before today))
   \<and> (str_includes text (str ''ayer'') \<longrightarrow> str_includes (toLowerCase text) (str ''ayer''))"
proof (intro conjI impI)
  assume h: "valid_date today \<and> search datePattern0 text = None
      \<and> \<not> str_includes (toLowerCase text) (str ''hoy'')
      \<and> str_includes (toLowerCase text) (str ''ayer'')"
  then have "extractDateFromText today text =
      formatDate (setDate today (int (getDate today) - 1))"
    by (simp add: extractDateFromText_def)
  with h show "extractDateFromText today text = formatDate (day_before today)"
    by (simp add: setDate_yesterday)
next
  assume "str_includes text (str ''ayer'')"
  from str_includes_lower [OF this] lower_ayer
  show "str_includes (toLowerCase text) (str ''ayer'')"
    by simp
qed
















lemmas str_eval = str_def toLowerCase_def lower_unit_def trim_def is_space_def
lemmas date_eval = formatDate_def string_of_number_def string_of_int_def string_of_nat.simps
  padStart0_def day_before_def days_in_month_def leap_year_def valid_date_def
  parseInt_def adjust_year_def truthy_def numeral_2_eq_2

lemma msg_ayer:
  "str ''Gast'' @ [233] @ str '' $45000 en el supermercado ayer'' =
    [71, 97, 115, 116, 233, 32, 36, 52, 53, 48, 48, 48, 32, 101, 110, 32, 101, 108, 32, 115,
     117, 112, 101, 114, 109, 101, 114, 99, 97, 100, 111, 32, 97, 121, 101, 114]"
  by (simp add: str_def)

lemma msg_ayer_date: "search datePattern0
    [71, 97, 115, 116, 233, 32, 36, 52, 53, 48, 48, 48, 32, 101, 110, 32, 101, 108, 32, 115,
     117, 112, 101, 114, 109, 101, 114, 99, 97, 100, 111, 32, 97, 121, 101, 114] = None"
  by (simp add: datePattern0_def rx_defs)

lemma msg_ayer_lower: "toLowerCase
    [71, 97, 115, 116, 233, 32, 36, 52, 53, 48, 48, 48, 32, 101, 110, 32, 101, 108, 32, 115,
     117, 112, 101, 114, 109, 101, 114, 99, 97, 100, 111, 32, 97, 121, 101, 114] =
    [103, 97, 115, 116, 233, 32, 36, 52, 53, 48, 48, 48, 32, 101, 110, 32, 101, 108, 32, 115,
     117, 112, 101, 114, 109, 101, 114, 99, 97, 100, 111, 32, 97, 121, 101, 114]"
  by (simp add: toLowerCase_def lower_unit_def)

theorem extractDateFromText_yesterday_witness:
  "extractDateFromText \<lparr>getFullYear = 2024, getMonth = 2, getDate = 1\<rparr>
      (str ''Gast'' @ [233] @ str '' $45000 en el supermercado ayer'') = str ''2024-02-29''
   \<and> extractDateFromText \<lparr>getFullYear = 2024, getMonth = 0, getDate = 1\<rparr>
      (str ''Gast'' @ [233] @ str '' $45000 en el supermercado ayer'') = str ''2023-12-31''
   \<and> extractDateFromText \<lparr>getFullYear = 2024, getMonth = 2, getDate = 10\<rparr>
      (str ''Gast'' @ [233] @ str '' $45000 en el supermercado ayer'') = str ''2024-03-09''"
proof -
  let ?t = "str ''Gast'' @ [233] @ str '' $45000 en el supermercado ayer''"
  have h1: "search datePattern0 ?t = None"
    unfolding msg_ayer by (rule msg_ayer_date)
  have h2: "\<not> str_includes (toLowerCase ?t) (str ''hoy'')"
    "str_includes (toLowerCase ?t) (str ''ayer'')"
    unfolding msg_ayer msg_ayer_lower
    by (simp_all add: str_def)
  note h = h1 h2
  have v: "valid_date \<lparr>getFullYear = 2024, getMonth = 2, getDate = 1\<rparr>"
    "valid_date \<lparr>getFullYear = 2024, getMonth = 0, getDate = 1\<rparr>"
    "valid_date \<lparr>getFullYear = 2024, getMonth = 2, getDate = 10\<rparr>"
    by (simp_all add: date_eval)
  have f: "formatDate (day_before \<lparr>getFullYear = 2024, getMonth = 2, getDate = 1\<rparr>) = str ''2024-02-29''"
    "formatDate (day_before \<lparr>getFullYear = 2024, getMonth = 0, getDate = 1\<rparr>) = str ''2023-12-31''"
    "formatDate (day_before \<lparr>getFullYear = 2024, getMonth = 2, getDate = 10\<rparr>) = str ''2024-03-09''"
    by (simp_all add: date_eval str_def)
  from h v f
    extractDateFromText_yesterday [of "\<lparr>getFullYear = 2024, getMonth = 2, getDate = 1\<rparr>" ?t]
    extractDateFromText_yesterday [of "\<lparr>getFullYear = 2024, getMonth = 0, getDate = 1\<rparr>" ?t]
    extractDateFromText_yesterday [of "\<lparr>getFullYear = 2024, getMonth = 2, getDate = 10\<rparr>" ?t]
  show ?thesis by simp
qed





lemma no_intent_keyword_1:
  "list_all (\<lambda>(intent, keywords).
       list_all (\<lambda>keyword. \<not> str_includes (toLowerCase (str ''$45000 en el super'')) keyword)
         keywords) intentKeywords"
  by (simp add: intentKeywords_def str_eval)

lemma no_intent_keyword_2:
  "list_all (\<lambda>(intent, keywords).
       list_all (\<lambda>keyword. \<not> str_includes (toLowerCase (str ''hola'')) keyword)
         keywords) intentKeywords"
  by (simp add: intentKeywords_def str_eval)

lemma amount_super: "extractAmountFromText (str ''$45000 en el super'') = Some (str ''45000'')"
  by (simp add: extractAmountFromText_def amount_of_pattern_def amountPatterns_def rx_defs
      trim_def)

lemma amount_hola: "extractAmountFromText (str ''hola'') = None"
  by (simp add: extractAmountFromText_def amount_of_pattern_def amountPatterns_def rx_defs)

theorem getIntent_default_witness:
  "list_all (\<lambda>(intent, keywords).
       list_all (\<lambda>keyword. \<not> str_includes (toLowerCase (str ''$45000 en el super'')) keyword)
         keywords) intentKeywords
   \<and> extractAmountFromText (str ''$45000 en el super'') = Some (str ''45000'')
   \<and> getIntent (str ''$45000 en el super'') = Some (str ''gasto'')
   \<and> list_all (\<lambda>(intent, keywords).
       list_all (\<lambda>keyword. \<not> str_includes (toLowerCase (str ''hola'')) keyword)
         keywords) intentKeywords
   \<and> extractAmountFromText (str ''hola'') = None
   \<and> getIntent (str ''hola'') = None"
proof -
  have a: "\<forall>(intent, keywords) \<in> set intentKeywords.
        \<forall>keyword \<in> set keywords.
          \<not> str_includes (toLowerCase (str ''$45000 en el super'')) keyword"
    using no_intent_keyword_1 by (simp add: list_all_iff case_prod_unfold)
  have b: "\<forall>(intent, keywords) \<in> set intentKeywords.
        \<forall>keyword \<in> set keywords. \<not> str_includes (toLowerCase (str ''hola'')) keyword"
    using no_intent_keyword_2 by (simp add: list_all_iff case_prod_unfold)
  from a amount_super getIntent_default [of "str ''$45000 en el super''"]
  have c: "getIntent (str ''$45000 en el super'') = Some (str ''gasto'')" by simp
  from b amount_hola getIntent_default [of "str ''hola''"]
  have d: "getIntent (str ''hola'') = None" by simp
  from c d no_intent_keyword_1 no_intent_keyword_2 amount_super amount_hola
  show ?thesis by blast
qed

lemma cafe_hits:
  "keyword_hit (str ''CAF'' @ [201] @ str '' y chocolate'') (snd (expenseCategories ! 1))"
  "keyword_hit (str ''CAF'' @ [201] @ str '' y chocolate'') (snd (expenseCategories ! 7))"
  "\<not> keyword_hit (str ''CAF'' @ [201] @ str '' y chocolate'') (snd (expenseCategories ! 0))"
  by (simp_all add: keyword_hit_def expenseCategories_def str_eval)

lemma hola_hits:
  "list_all (\<lambda>e. \<not> keyword_hit (str ''hola'') (snd e)) expenseCategories"
  by (simp add: keyword_hit_def expenseCategories_def str_eval)

theorem categorizeExpense_order_stable_witness:
  "keyword_hit (str ''CAF'' @ [201] @ str '' y chocolate'') (snd (expenseCategories ! 1))
   \<and> keyword_hit (str ''CAF'' @ [201] @ str '' y chocolate'') (snd (expenseCategories ! 7))
   \<and> \<not> keyword_hit (str ''CAF'' @ [201] @ str '' y chocolate'') (snd (expenseCategories ! 0))
   \<and> fst (expenseCategories ! 1) = str ''restaurante''
   \<and> fst (expenseCategories ! 7) = str ''snacks''
   \<and> categorizeExpense (str ''CAF'' @ [201] @ str '' y chocolate'') = str ''restaurante''
   \<and> list_all (\<lambda>e. \<not> keyword_hit (str ''hola'') (snd e)) expenseCategories
   \<and> categorizeExpense (str ''hola'') = str ''otros''"
proof -
  let ?t = "str ''CAF'' @ [201] @ str '' y chocolate''"
  have k: "fst (expenseCategories ! 1) = str ''restaurante''"
    "fst (expenseCategories ! 7) = str ''snacks''"
    by (simp_all add: expenseCategories_def)
  have l: "\<forall>k < 1. \<not> keyword_hit ?t (snd (expenseCategories ! k))"
    using cafe_hits(3) by simp
  have n: "\<forall>k < length expenseCategories. \<not> keyword_hit (str ''hola'') (snd (expenseCategories ! k))"
    using hola_hits by (simp add: list_all_length)
  from cafe_hits l k categorizeExpense_order_stable [of 1 7 ?t]
  have a: "categorizeExpense ?t = str ''restaurante''"
    by (simp add: length_expenseCategories)
  from n categorizeExpense_order_stable [of 1 7 "str ''hola''"]
  have b: "categorizeExpense (str ''hola'') = str ''otros''" by simp
  from a b k cafe_hits hola_hits show ?thesis by blast
qed

section \<open>The scenario of a message\<close>

lemma msg_ayer_prep_en:
  "search (prep_pattern (str ''en''))
    [103, 97, 115, 116, 233, 32, 36, 52, 53, 48, 48, 48, 32, 101, 110, 32, 101, 108, 32, 115,
     117, 112, 101, 114, 109, 101, 114, 99, 97, 100, 111, 32, 97, 121, 101, 114] =
   Some (13, [], [1 \<mapsto> str ''el'', 2 \<mapsto> str ''supermercado ayer''])"
  by (simp add: prep_pattern_def is_concept_char_def rx_defs)

lemma clean_supermercado_ayer:
  "search amount_tail (str ''supermercado ayer'') = None"
  "search date_tail (str ''supermercado ayer'') = None"
  by (simp_all add: amount_tail_def date_tail_def rx_defs)

lemma trim_supermercado_ayer: "trim (str ''supermercado ayer'') = str ''supermercado ayer''"
  by (simp add: str_eval)

lemma capitalize_supermercado_ayer:
  "capitalize (str ''supermercado ayer'') = str ''Supermercado ayer''"
  by (simp add: capitalize_def upper_unit_def str_def)

lemma msg_ayer_concept_of_prep:
  "concept_of_prep
    [103, 97, 115, 116, 233, 32, 36, 52, 53, 48, 48, 48, 32, 101, 110, 32, 101, 108, 32, 115,
     117, 112, 101, 114, 109, 101, 114, 99, 97, 100, 111, 32, 97, 121, 101, 114] (str ''en'')
   = Some (str ''Supermercado ayer'')"
proof -
  have ne: "str ''supermercado ayer'' \<noteq> []" by (simp add: str_def)
  show ?thesis
    unfolding concept_of_prep_def msg_ayer_prep_en
    by (simp add: ne trim_supermercado_ayer replace_re_def clean_supermercado_ayer
        capitalize_supermercado_ayer)
qed

lemma msg_ayer_concept:
  "extractConceptFromText (str ''Gast'' @ [233] @ str '' $45000 en el supermercado ayer'') tipo'
     = str ''Supermercado ayer''"
  unfolding extractConceptFromText_def msg_ayer msg_ayer_lower Let_def
  by (simp add: msg_ayer_concept_of_prep)

lemma msg_ayer_amount:
  "extractAmountFromText (str ''Gast'' @ [233] @ str '' $45000 en el supermercado ayer'')
     = Some (str ''45000'')"
  unfolding msg_ayer
  by (simp add: extractAmountFromText_def amount_of_pattern_def amountPatterns_def rx_defs
      trim_def)

lemma msg_ayer_category:
  "categorizeExpense (str ''Gast'' @ [233] @ str '' $45000 en el supermercado ayer'')
     = str ''supermercado''"
  unfolding categorizeExpense_def msg_ayer msg_ayer_lower Let_def
  by (simp add: expenseCategories_def str_eval)

lemma msg_ayer_detect:
  "detectIntent
    [103, 97, 115, 116, 233, 32, 36, 52, 53, 48, 48, 48, 32, 101, 110, 32, 101, 108, 32, 115,
     117, 112, 101, 114, 109, 101, 114, 99, 97, 100, 111, 32, 97, 121, 101, 114]
     = Some (str ''gasto'')"
  by (simp add: detectIntent_def keywords_of_def intentKeywords_def str_def)

lemma msg_ayer_fecha:
  "extractDateFromText \<lparr>getFullYear = 2024, getMonth = 2, getDate = 10\<rparr>
     (str ''Gast'' @ [233] @ str '' $45000 en el supermercado ayer'') = str ''2024-03-09''"
proof -
  let ?t = "str ''Gast'' @ [233] @ str '' $45000 en el supermercado ayer''"
  let ?d = "\<lparr>getFullYear = 2024, getMonth = 2, getDate = 10\<rparr>"
  have h1: "search datePattern0 ?t = None"
    unfolding msg_ayer by (rule msg_ayer_date)
  have h2: "\<not> str_includes (toLowerCase ?t) (str ''hoy'')"
    "str_includes (toLowerCase ?t) (str ''ayer'')"
    unfolding msg_ayer msg_ayer_lower
    by (simp_all add: str_def)
  have v: "valid_date ?d" by (simp add: date_eval)
  have f: "formatDate (day_before ?d) = str ''2024-03-09''"
    by (simp add: date_eval str_def)
  show ?thesis
    by (simp only: extractDateFromText_no_match [OF h1] h2 if_False if_True
        setDate_yesterday [OF v] f)
qed

text \<open>
  Claim C2, amended. On the processing date 2024-03-10 the message
  \<open>Gaste $45000 en el supermercado ayer\<close> (with e-acute), with the intent \<open>gasto\<close>
  forced or detected, gives the record with type \<open>gasto\<close>, amount \<open>45000\<close>, date
  \<open>2024-03-09\<close>, concept \<open>Supermercado ayer\<close> and category \<open>supermercado\<close>.
\<close>

theorem processText_scenario:
  "processText \<lparr>getFullYear = 2024, getMonth = 2, getDate = 10\<rparr> now
      (str ''Gast'' @ [233] @ str '' $45000 en el supermercado ayer'') (Some (str ''gasto''))
    = \<lparr>tipo = Some (str ''gasto''), monto = Some (str ''45000''), fecha = str ''2024-03-09'',
        concepto = str ''Supermercado ayer'', categoria = str ''supermercado'',
        texto_completo = str ''Gast'' @ [233] @ str '' $45000 en el supermercado ayer'',
        timestamp = now, items = None\<rparr>
   \<and> processText \<lparr>getFullYear = 2024, getMonth = 2, getDate = 10\<rparr> now
      (str ''Gast'' @ [233] @ str '' $45000 en el supermercado ayer'') None
    = \<lparr>tipo = Some (str ''gasto''), monto = Some (str ''45000''), fecha = str ''2024-03-09'',
        concepto = str ''Supermercado ayer'', categoria = str ''supermercado'',
        texto_completo = str ''Gast'' @ [233] @ str '' $45000 en el supermercado ayer'',
        timestamp = now, items = None\<rparr>"
proof -
  have g: "truthy (Some (str ''gasto''))" "\<not> truthy None"
    by (simp_all add: truthy_def str_def)
  have d: "detectIntent (toLowerCase (str ''Gast'' @ [233] @ str '' $45000 en el supermercado ayer''))
      = Some (str ''gasto'')"
    unfolding msg_ayer msg_ayer_lower by (rule msg_ayer_detect)
  show ?thesis
    unfolding processText_def Let_def
    by (simp only: g d if_True if_False msg_ayer_concept msg_ayer_amount msg_ayer_category
        msg_ayer_fecha simp_thms)
qed

text \<open>
  Claim C2 as stated fails on the concept: the phrase captured after \<open>en el\<close> runs to
  the end of the message and keeps the word \<open>ayer\<close>, so the concept is neither
  \<open>Supermercado\<close> nor the label of the category.
\<close>

theorem processText_scenario_counterexample:
  "concepto (processText \<lparr>getFullYear = 2024, getMonth = 2, getDate = 10\<rparr> []
      (str ''Gast'' @ [233] @ str '' $45000 en el supermercado ayer'') (Some (str ''gasto'')))
     = str ''Supermercado ayer''
   \<and> str ''Supermercado ayer'' \<noteq> str ''Supermercado''
   \<and> str ''Supermercado ayer'' \<noteq> capitalize (str ''supermercado'')"
proof -
  have g: "truthy (Some (str ''gasto''))"
    by (simp add: truthy_def str_def)
  have a: "concepto (processText \<lparr>getFullYear = 2024, getMonth = 2, getDate = 10\<rparr> []
      (str ''Gast'' @ [233] @ str '' $45000 en el supermercado ayer'') (Some (str ''gasto'')))
     = str ''Supermercado ayer''"
    unfolding processText_def Let_def
    by (simp only: transaction.simps msg_ayer_concept)
  have b: "str ''Supermercado ayer'' \<noteq> str ''Supermercado''"
    "str ''Supermercado ayer'' \<noteq> capitalize (str ''supermercado'')"
    by (simp_all add: str_def capitalize_def upper_unit_def)
  from a b show ?thesis by blast
qed

section \<open>The concept of an income\<close>

lemma income_without_preposition:
  assumes "\<forall>prep \<in> set [str ''en'', str ''de'', str ''para'', str ''por'', str ''a''].
       search (prep_pattern prep) (toLowerCase text) = None"
    and "\<forall>prep \<in> set [str ''por'', str ''de''].
       search (income_pattern prep) (toLowerCase text) = None"
  shows "extractConceptFromText text (Some (str ''ingreso'')) =
     (if str_includes (toLowerCase text) (str ''freelance'')
         \<or> str_includes (toLowerCase text) (str ''proyecto'')
      then str ''Freelance'' else str ''Ingreso variable'')"
proof -
  from assms(1) have a: "for_return (concept_of_prep (toLowerCase text))
      [str ''en'', str ''de'', str ''para'', str ''por'', str ''a''] = None"
    unfolding for_return_None_iff by (simp add: concept_of_prep_def)
  from assms(2) have b: "for_return (concept_of_income_prep (toLowerCase text))
      [str ''por'', str ''de''] = None"
    unfolding for_return_None_iff by (simp add: concept_of_income_prep_def)
  show ?thesis
    unfolding extractConceptFromText_def Let_def a b by simp
qed

text \<open>
  Claim C8, amended. For an income message in which none of the preposition patterns of the
  two loops matches, \<open>extractConceptFromText\<close> returns the label \<open>Freelance\<close> (without a
  colon) when the lowered text contains \<open>freelance\<close> or \<open>proyecto\<close>, and the label
  \<open>Ingreso variable\<close> when it contains neither.
\<close>

theorem extractConceptFromText_income_amended:
  "(\<forall>prep \<in> set [str ''en'', str ''de'', str ''para'', str ''por'', str ''a''].
       search (prep_pattern prep) (toLowerCase text) = None)
   \<and> (\<forall>prep \<in> set [str ''por'', str ''de''].
       search (income_pattern prep) (toLowerCase text) = None) \<longrightarrow>
   extractConceptFromText text (Some (str ''ingreso'')) =
     (if str_includes (toLowerCase text) (str ''freelance'')
         \<or> str_includes (toLowerCase text) (str ''proyecto'')
      then str ''Freelance'' else str ''Ingreso variable'')"
  using income_without_preposition [of "text"] by blast

lemma income_texts:
  "toLowerCase (str ''Cobr'' @ [233] @ str '' 500 freelance'') =
     [99, 111, 98, 114, 233, 32, 53, 48, 48, 32, 102, 114, 101, 101, 108, 97, 110, 99, 101]"
  "toLowerCase (str ''Cobr'' @ [233] @ str '' 500'') = [99, 111, 98, 114, 233, 32, 53, 48, 48]"
  "toLowerCase (str ''Recib'' @ [237] @ str '' $500000 por proyecto freelance'') =
     [114, 101, 99, 105, 98, 237, 32, 36, 53, 48, 48, 48, 48, 48, 32, 112, 111, 114, 32,
      112, 114, 111, 121, 101, 99, 116, 111, 32, 102, 114, 101, 101, 108, 97, 110, 99, 101]"
  by (simp_all add: str_eval)

lemma income_no_prep_1:
  "list_all (\<lambda>prep. search (prep_pattern prep)
      [99, 111, 98, 114, 233, 32, 53, 48, 48, 32, 102, 114, 101, 101, 108, 97, 110, 99, 101]
        = None)
     [str ''en'', str ''de'', str ''para'', str ''por'', str ''a'']"
  "list_all (\<lambda>prep. search (income_pattern prep)
      [99, 111, 98, 114, 233, 32, 53, 48, 48, 32, 102, 114, 101, 101, 108, 97, 110, 99, 101]
        = None)
     [str ''por'', str ''de'']"
  by (simp_all add: prep_pattern_def income_pattern_def is_concept_char_def rx_defs)

lemma income_no_prep_2:
  "list_all (\<lambda>prep. search (prep_pattern prep) [99, 111, 98, 114, 233, 32, 53, 48, 48] = None)
     [str ''en'', str ''de'', str ''para'', str ''por'', str ''a'']"
  "list_all (\<lambda>prep. search (income_pattern prep) [99, 111, 98, 114, 233, 32, 53, 48, 48] = None)
     [str ''por'', str ''de'']"
  by (simp_all add: prep_pattern_def income_pattern_def is_concept_char_def rx_defs)

lemma income_words:
  "str_includes
     [99, 111, 98, 114, 233, 32, 53, 48, 48, 32, 102, 114, 101, 101, 108, 97, 110, 99, 101]
     (str ''freelance'')"
  "\<not> str_includes [99, 111, 98, 114, 233, 32, 53, 48, 48] (str ''freelance'')"
  "\<not> str_includes [99, 111, 98, 114, 233, 32, 53, 48, 48] (str ''proyecto'')"
  by (simp_all add: str_def)

theorem extractConceptFromText_income_amended_witness:
  "list_all (\<lambda>prep. search (prep_pattern prep)
        (toLowerCase (str ''Cobr'' @ [233] @ str '' 500 freelance'')) = None)
     [str ''en'', str ''de'', str ''para'', str ''por'', str ''a'']
   \<and> list_all (\<lambda>prep. search (income_pattern prep)
        (toLowerCase (str ''Cobr'' @ [233] @ str '' 500 freelance'')) = None)
     [str ''por'', str ''de'']
   \<and> extractConceptFromText (str ''Cobr'' @ [233] @ str '' 500 freelance'')
        (Some (str ''ingreso'')) = str ''Freelance''
   \<and> list_all (\<lambda>prep. search (prep_pattern prep)
        (toLowerCase (str ''Cobr'' @ [233] @ str '' 500'')) = None)
     [str ''en'', str ''de'', str ''para'', str ''por'', str ''a'']
   \<and> list_all (\<lambda>prep. search (income_pattern prep)
        (toLowerCase (str ''Cobr'' @ [233] @ str '' 500'')) = None)
     [str ''por'', str ''de'']
   \<and> extractConceptFromText (str ''Cobr'' @ [233] @ str '' 500'')
        (Some (str ''ingreso'')) = str ''Ingreso variable''"
proof -
  let ?a = "str ''Cobr'' @ [233] @ str '' 500 freelance''"
  let ?b = "str ''Cobr'' @ [233] @ str '' 500''"
  note n1 = income_no_prep_1 [folded income_texts(1)]
  note n2 = income_no_prep_2 [folded income_texts(2)]
  have w1: "str_includes (toLowerCase ?a) (str ''freelance'')"
    unfolding income_texts by (rule income_words)
  have w2: "\<not> str_includes (toLowerCase ?b) (str ''freelance'')"
    "\<not> str_includes (toLowerCase ?b) (str ''proyecto'')"
    unfolding income_texts by (rule income_words)+
  from n1 w1 extractConceptFromText_income_amended [of ?a]
  have r1: "extractConceptFromText ?a (Some (str ''ingreso'')) = str ''Freelance''"
    unfolding list_all_iff by simp
  from n2 w2 extractConceptFromText_income_amended [of ?b]
  have r2: "extractConceptFromText ?b (Some (str ''ingreso'')) = str ''Ingreso variable''"
    unfolding list_all_iff by simp
  from n1 n2 r1 r2 show ?thesis by blast
qed

lemma recibi_prep:
  "list_all (\<lambda>prep. search (prep_pattern prep)
     [114, 101, 99, 105, 98, 237, 32, 36, 53, 48, 48, 48, 48, 48, 32, 112, 111, 114, 32,
      112, 114, 111, 121, 101, 99, 116, 111, 32, 102, 114, 101, 101, 108, 97, 110, 99, 101]
       = None) [str ''en'', str ''de'', str ''para'']"
  "search (prep_pattern (str ''por''))
     [114, 101, 99, 105, 98, 237, 32, 36, 53, 48, 48, 48, 48, 48, 32, 112, 111, 114, 32,
      112, 114, 111, 121, 101, 99, 116, 111, 32, 102, 114, 101, 101, 108, 97, 110, 99, 101]
     = Some (15, [], [2 \<mapsto> str ''proyecto freelance''])"
  by (simp_all add: prep_pattern_def is_concept_char_def rx_defs)

lemma clean_proyecto_freelance:
  "search amount_tail (str ''proyecto freelance'') = None"
  "search date_tail (str ''proyecto freelance'') = None"
  "trim (str ''proyecto freelance'') = str ''proyecto freelance''"
  "capitalize (str ''proyecto freelance'') = str ''Proyecto freelance''"
  by (simp_all add: amount_tail_def date_tail_def rx_defs str_eval capitalize_def)

lemma recibi_concept:
  "extractConceptFromText (str ''Recib'' @ [237] @ str '' $500000 por proyecto freelance'')
     (Some (str ''ingreso'')) = str ''Proyecto freelance''"
proof -
  let ?l = "[114, 101, 99, 105, 98, 237, 32, 36, 53, 48, 48, 48, 48, 48, 32, 112, 111, 114, 32,
      112, 114, 111, 121, 101, 99, 116, 111, 32, 102, 114, 101, 101, 108, 97, 110, 99, 101]"
  have ne: "str ''proyecto freelance'' \<noteq> []" by (simp add: str_def)
  have a: "concept_of_prep ?l (str ''en'') = None" "concept_of_prep ?l (str ''de'') = None"
    "concept_of_prep ?l (str ''para'') = None"
    using recibi_prep(1) by (simp_all add: concept_of_prep_def)
  have b: "concept_of_prep ?l (str ''por'') = Some (str ''Proyecto freelance'')"
    unfolding concept_of_prep_def recibi_prep(2)
    by (simp add: ne replace_re_def clean_proyecto_freelance)
  show ?thesis
    unfolding extractConceptFromText_def income_texts Let_def
    by (simp add: a b)
qed

lemma cobre_concept:
  "extractConceptFromText (str ''Cobr'' @ [233] @ str '' 500 freelance'')
     (Some (str ''ingreso'')) = str ''Freelance''"
proof -
  let ?a = "str ''Cobr'' @ [233] @ str '' 500 freelance''"
  note n1 = income_no_prep_1 [folded income_texts(1)]
  have w1: "str_includes (toLowerCase ?a) (str ''freelance'')"
    unfolding income_texts by (rule income_words)
  from n1 w1 income_without_preposition [of ?a] show ?thesis
    unfolding list_all_iff by simp
qed

text \<open>
  Claim C8 as stated fails. The income message \<open>Recibi $500000 por proyecto freelance\<close>
  (with i-acute) has \<open>proyecto\<close> and \<open>freelance\<close> in the phrase captured after
  \<open>por\<close>, and its concept is \<open>Proyecto freelance\<close>: the first loop returns before the
  loop for incomes is reached. The income message \<open>Cobre 500 freelance\<close> (with e-acute),
  where no preposition matches, has the concept \<open>Freelance\<close>, with no colon.
\<close>

theorem extractConceptFromText_income_counterexample:
  "str_includes (toLowerCase (str ''Recib'' @ [237] @ str '' $500000 por proyecto freelance''))
      (str ''proyecto'')
   \<and> extractConceptFromText (str ''Recib'' @ [237] @ str '' $500000 por proyecto freelance'')
        (Some (str ''ingreso'')) = str ''Proyecto freelance''
   \<and> \<not> startsWith (str ''Proyecto freelance'') (str ''Freelance:'')
   \<and> str_includes (toLowerCase (str ''Cobr'' @ [233] @ str '' 500 freelance''))
      (str ''freelance'')
   \<and> extractConceptFromText (str ''Cobr'' @ [233] @ str '' 500 freelance'')
        (Some (str ''ingreso'')) = str ''Freelance''
   \<and> \<not> startsWith (str ''Freelance'') (str ''Freelance:'')"
proof -
  have a: "str_includes (toLowerCase (str ''Recib'' @ [237] @ str '' $500000 por proyecto freelance''))
      (str ''proyecto'')"
    unfolding income_texts by (simp add: str_def)
  have b: "\<not> startsWith (str ''Proyecto freelance'') (str ''Freelance:'')"
    "\<not> startsWith (str ''Freelance'') (str ''Freelance:'')"
    by (simp_all add: str_def)
  have c: "str_includes (toLowerCase (str ''Cobr'' @ [233] @ str '' 500 freelance''))
      (str ''freelance'')"
    unfolding income_texts by (rule income_words)
  from a b c recibi_concept cobre_concept show ?thesis by blast
qed

section \<open>The category of a budget update\<close>

lemma keyword_loop_no_hit:
  "\<not> contains_keyword categoryName kws \<Longrightarrow>
     keyword_loop categoryName category kws b = b"
proof (induction kws arbitrary: b)
  case Nil
  then show ?case by (cases b) simp
next
  case (Cons k ks)
  then show ?case by (cases b) (simp add: contains_keyword_def)
qed

lemma keyword_loop_keeps:
  "fst (keyword_loop categoryName category kws (Some category, s)) = Some category"
  by (induction kws arbitrary: s) (auto simp: Let_def)

lemma keyword_loop_hit:
  "list_ex (\<lambda>keyword. str_includes categoryName keyword \<and> s < length keyword) kws \<Longrightarrow>
     fst (keyword_loop categoryName category kws (b, s)) = Some category"
proof (induction kws arbitrary: b s)
  case Nil
  then show ?case by simp
next
  case (Cons k ks)
  show ?case
  proof (cases "str_includes categoryName k \<and> s < length k")
    case True
    then show ?thesis by (simp add: Let_def keyword_loop_keeps)
  next
    case False
    with Cons.prems have "list_ex (\<lambda>keyword. str_includes categoryName keyword
        \<and> s < length keyword) ks"
      by auto
    from Cons.IH [OF this] False show ?thesis by (auto simp: Let_def)
  qed
qed

lemma key_step_unrelated:
  "\<not> key_related categoryName category \<Longrightarrow> key_step categoryName category b = b"
  by (cases b) (simp add: key_step_def key_related_def)

lemma category_loop_append:
  "category_loop categoryName (xs @ ys) b =
     category_loop categoryName ys (category_loop categoryName xs b)"
proof (induction xs arbitrary: b)
  case Nil
  then show ?case by simp
next
  case (Cons e xs)
  obtain c ks where e: "e = (c, ks)" by (cases e)
  show ?case unfolding e by (simp only: append_Cons category_loop.simps Cons.IH)
qed

lemma category_loop_no_hit:
  "(\<And>e. e \<in> set cats \<Longrightarrow>
      \<not> key_related categoryName (fst e) \<and> \<not> contains_keyword categoryName (snd e)) \<Longrightarrow>
   category_loop categoryName cats b = b"
proof (induction cats arbitrary: b)
  case Nil
  then show ?case by simp
next
  case (Cons e cats)
  obtain c ks where e: "e = (c, ks)" by (cases e)
  from Cons.prems [of e] e have "\<not> key_related categoryName c" "\<not> contains_keyword categoryName ks"
    by simp_all
  then have "keyword_loop categoryName c ks (key_step categoryName c b) = b"
    by (simp add: key_step_unrelated keyword_loop_no_hit)
  moreover have "category_loop categoryName cats b = b"
    using Cons.prems by (intro Cons.IH) simp
  ultimately show ?case by (simp add: e)
qed

lemma keywords_nonempty:
  "list_all (\<lambda>e. list_all (\<lambda>keyword. keyword \<noteq> []) (snd e)) expenseCategories"
  by (simp add: expenseCategories_def str_def)

lemma category_loop_single:
  assumes i: "i < length cats"
    and hit: "contains_keyword categoryName (snd (cats ! i))"
    and ne: "list_all (\<lambda>keyword. keyword \<noteq> []) (snd (cats ! i))"
    and others: "\<And>j. j < length cats \<Longrightarrow> j \<noteq> i \<Longrightarrow>
        \<not> contains_keyword categoryName (snd (cats ! j))"
    and keys: "\<And>j. j < length cats \<Longrightarrow> \<not> key_related categoryName (fst (cats ! j))"
  shows "fst (category_loop categoryName cats (None, 0)) = Some (fst (cats ! i))"
proof -
  obtain c ks where e: "cats ! i = (c, ks)" by (cases "cats ! i")
  have split: "cats = take i cats @ [(c, ks)] @ drop (Suc i) cats"
    using id_take_nth_drop [OF i] e by simp
  have pre: "category_loop categoryName (take i cats) (None, 0) = (None, 0)"
  proof (rule category_loop_no_hit)
    fix x assume "x \<in> set (take i cats)"
    then obtain j where j: "j < i" "x = cats ! j"
      using i by (auto simp: in_set_conv_nth)
    with i others [of j] keys [of j]
    show "\<not> key_related categoryName (fst x) \<and> \<not> contains_keyword categoryName (snd x)"
      by simp
  qed
  have "list_ex (\<lambda>keyword. str_includes categoryName keyword \<and> 0 < length keyword) ks"
    using hit ne e by (auto simp: contains_keyword_def list_ex_iff list_all_iff)
  from keyword_loop_hit [OF this]
  have mid: "fst (keyword_loop categoryName c ks (None, 0)) = Some c" .
  have ks: "\<not> key_related categoryName c" using keys [OF i] e by simp
  define b where "b = keyword_loop categoryName c ks (None, 0)"
  have post: "category_loop categoryName (drop (Suc i) cats) b = b"
  proof (rule category_loop_no_hit)
    fix x assume "x \<in> set (drop (Suc i) cats)"
    then obtain j where j: "Suc i \<le> j" "j < length cats" "x = cats ! j"
      by (auto simp: in_set_conv_nth) (metis add.commute add_Suc_right le_add1 less_diff_conv)
    with others [of j] keys [of j]
    show "\<not> key_related categoryName (fst x) \<and> \<not> contains_keyword categoryName (snd x)"
      by simp
  qed
  have "category_loop categoryName cats (None, 0) =
      category_loop categoryName (take i cats @ [(c, ks)] @ drop (Suc i) cats) (None, 0)"
    using split by simp
  also have "\<dots> = b"
    by (simp add: category_loop_append pre key_step_unrelated [OF ks] b_def [symmetric] post)
  finally show ?thesis using mid e by (simp add: b_def)
qed

lemma processBudget_matched:
  assumes "\<not> status_query (toLowerCase msg)"
    and "search budget_pattern (toLowerCase msg) = Some (k, rest, m)"
    and "m 1 = Some g1" and "m 2 = Some g2"
  shows "processBudget parseFloat writable f msg =
      (case fst (category_loop (toLowerCase (trim g1)) expenseCategories (None, 0)) of
         None \<Rightarrow> (CategoryNotIdentified, f)
       | Some best \<Rightarrow>
           if best = [] then (CategoryNotIdentified, f)
           else (BudgetUpdated best (parseFloat (replace_str g2 (str '','') (str ''.''))),
                 fst (saveDatabase writable f
                   ((loadDatabase f)\<lparr>budget :=
                      set_property (budget (loadDatabase f)) best
                        (parseFloat (replace_str g2 (str '','') (str ''.'')))\<rparr>))))"
  using assms
  by (simp add: processBudget_def status_query_def Let_def split: prod.splits option.splits)

text \<open>
  Claim C7, amended. A category name that contains a keyword of one configured category,
  contains no keyword of any other category and is in no substring relation with any
  category key selects that category. A name that is in no substring relation with any
  key and contains no keyword selects none. In a budget update the category selected by
  the loops is the entry that is set; when none is selected the answer is that the category
  was not identified and the file is left as it was.
\<close>

theorem processBudget_category_amended:
  "(i < length expenseCategories
      \<and> contains_keyword categoryName (snd (expenseCategories ! i))
      \<and> (\<forall>j < length expenseCategories. j \<noteq> i \<longrightarrow>
            \<not> contains_keyword categoryName (snd (expenseCategories ! j)))
      \<and> (\<forall>j < length expenseCategories.
            \<not> key_related categoryName (fst (expenseCategories ! j))) \<longrightarrow>
      fst (category_loop categoryName expenseCategories (None, 0))
        = Some (fst (expenseCategories ! i)))
   \<and> ((\<forall>j < length expenseCategories.
          \<not> key_related categoryName (fst (expenseCategories ! j))
          \<and> \<not> contains_keyword categoryName (snd (expenseCategories ! j))) \<longrightarrow>
        category_loop categoryName expenseCategories (None, 0) = (None, 0))
   \<and> (\<not> status_query (toLowerCase msg)
        \<and> search budget_pattern (toLowerCase msg) = Some (k, rest, m)
        \<and> m 1 = Some g1 \<and> m 2 = Some g2 \<longrightarrow>
        processBudget parseFloat writable f msg =
          (case fst (category_loop (toLowerCase (trim g1)) expenseCategories (None, 0)) of
             None \<Rightarrow> (CategoryNotIdentified, f)
           | Some best \<Rightarrow>
               if best = [] then (CategoryNotIdentified, f)
               else (BudgetUpdated best (parseFloat (replace_str g2 (str '','') (str ''.''))),
                     fst (saveDatabase writable f
                       ((loadDatabase f)\<lparr>budget :=
                          set_property (budget (loadDatabase f)) best
                            (parseFloat (replace_str g2 (str '','') (str ''.'')))\<rparr>)))))"
proof (intro conjI impI)
  assume h: "i < length expenseCategories
      \<and> contains_keyword categoryName (snd (expenseCategories ! i))
      \<and> (\<forall>j < length expenseCategories. j \<noteq> i \<longrightarrow>
            \<not> contains_keyword categoryName (snd (expenseCategories ! j)))
      \<and> (\<forall>j < length expenseCategories.
            \<not> key_related categoryName (fst (expenseCategories ! j)))"
  have ne: "list_all (\<lambda>keyword. keyword \<noteq> []) (snd (expenseCategories ! i))"
    using keywords_nonempty h by (simp add: list_all_length)
  show "fst (category_loop categoryName expenseCategories (None, 0))
        = Some (fst (expenseCategories ! i))"
    using h ne by (intro category_loop_single) simp_all
next
  assume h: "\<forall>j < length expenseCategories.
          \<not> key_related categoryName (fst (expenseCategories ! j))
          \<and> \<not> contains_keyword categoryName (snd (expenseCategories ! j))"
  show "category_loop categoryName expenseCategories (None, 0) = (None, 0)"
  proof (rule category_loop_no_hit)
    fix e assume "e \<in> set expenseCategories"
    then obtain j where "j < length expenseCategories" "e = expenseCategories ! j"
      by (auto simp: in_set_conv_nth)
    with h show "\<not> key_related categoryName (fst e) \<and> \<not> contains_keyword categoryName (snd e)"
      by simp
  qed
next
  assume "\<not> status_query (toLowerCase msg)
        \<and> search budget_pattern (toLowerCase msg) = Some (k, rest, m)
        \<and> m 1 = Some g1 \<and> m 2 = Some g2"
  then show "processBudget parseFloat writable f msg =
          (case fst (category_loop (toLowerCase (trim g1)) expenseCategories (None, 0)) of
             None \<Rightarrow> (CategoryNotIdentified, f)
           | Some best \<Rightarrow>
               if best = [] then (CategoryNotIdentified, f)
               else (BudgetUpdated best (parseFloat (replace_str g2 (str '','') (str ''.''))),
                     fst (saveDatabase writable f
                       ((loadDatabase f)\<lparr>budget :=
                          set_property (budget (loadDatabase f)) best
                            (parseFloat (replace_str g2 (str '','') (str ''.'')))\<rparr>))))"
    by (intro processBudget_matched [where k = k and rest = rest and m = m]) simp_all
qed

lemmas cat_eval = expenseCategories_def contains_keyword_def within_keyword_def
  key_related_def str_def

lemma netflix_premium:
  "contains_keyword (str ''netflix premium'') (snd (expenseCategories ! 4))"
  "list_all (\<lambda>j. j = 4 \<or> \<not> contains_keyword (str ''netflix premium'')
       (snd (expenseCategories ! j))) [0, 1, 2, 3, 4, 5, 6, 7, 8, 9]"
  "list_all (\<lambda>j. \<not> key_related (str ''netflix premium'') (fst (expenseCategories ! j)))
       [0, 1, 2, 3, 4, 5, 6, 7, 8, 9]"
  "fst (expenseCategories ! 4) = str ''entretenimiento''"
  by (simp_all add: cat_eval)

lemma xyz_unrelated:
  "list_all (\<lambda>j. \<not> key_related (str ''xyz'') (fst (expenseCategories ! j))
       \<and> \<not> contains_keyword (str ''xyz'') (snd (expenseCategories ! j)))
       [0, 1, 2, 3, 4, 5, 6, 7, 8, 9]"
  by (simp add: cat_eval)

lemma upto_10: "j < 10 \<longleftrightarrow> j \<in> set [0, 1, 2, 3, 4, 5, 6, 7, 8, 9::nat]"
  by auto

lemma msg_netflix:
  "toLowerCase (str ''Presupuesto para Netflix premium de $50000'') =
     [112, 114, 101, 115, 117, 112, 117, 101, 115, 116, 111, 32, 112, 97, 114, 97, 32, 110,
      101, 116, 102, 108, 105, 120, 32, 112, 114, 101, 109, 105, 117, 109, 32, 100, 101, 32,
      36, 53, 48, 48, 48, 48]"
  by (simp add: str_eval)

lemma msg_netflix_match:
  "search budget_pattern
     [112, 114, 101, 115, 117, 112, 117, 101, 115, 116, 111, 32, 112, 97, 114, 97, 32, 110,
      101, 116, 102, 108, 105, 120, 32, 112, 114, 101, 109, 105, 117, 109, 32, 100, 101, 32,
      36, 53, 48, 48, 48, 48] =
   Some (0, [], [1 \<mapsto> str ''netflix premium'', 2 \<mapsto> str ''50000''])"
  by (simp add: budget_pattern_def rx_defs)

lemma msg_netflix_status:
  "\<not> status_query
     [112, 114, 101, 115, 117, 112, 117, 101, 115, 116, 111, 32, 112, 97, 114, 97, 32, 110,
      101, 116, 102, 108, 105, 120, 32, 112, 114, 101, 109, 105, 117, 109, 32, 100, 101, 32,
      36, 53, 48, 48, 48, 48]"
  by (simp add: status_query_def str_def)

lemma trim_netflix: "toLowerCase (trim (str ''netflix premium'')) = str ''netflix premium''"
  by (simp add: str_eval)

theorem processBudget_category_amended_witness:
  "contains_keyword (str ''netflix premium'') (snd (expenseCategories ! 4))
   \<and> fst (expenseCategories ! 4) = str ''entretenimiento''
   \<and> fst (category_loop (str ''netflix premium'') expenseCategories (None, 0))
       = Some (str ''entretenimiento'')
   \<and> category_loop (str ''xyz'') expenseCategories (None, 0) = (None, 0)
   \<and> fst (processBudget (\<lambda>s. 0) True None (str ''Presupuesto para Netflix premium de $50000''))
       = BudgetUpdated (str ''entretenimiento'') 0"
proof -
  let ?n = "str ''netflix premium''"
  let ?msg = "str ''Presupuesto para Netflix premium de $50000''"
  have o: "\<forall>j < length expenseCategories. j \<noteq> 4 \<longrightarrow>
      \<not> contains_keyword ?n (snd (expenseCategories ! j))"
    using netflix_premium(2) unfolding length_expenseCategories upto_10 list_all_iff by blast
  have k: "\<forall>j < length expenseCategories. \<not> key_related ?n (fst (expenseCategories ! j))"
    using netflix_premium(3) unfolding length_expenseCategories upto_10 list_all_iff by blast
  have x: "\<forall>j < length expenseCategories.
      \<not> key_related (str ''xyz'') (fst (expenseCategories ! j))
      \<and> \<not> contains_keyword (str ''xyz'') (snd (expenseCategories ! j))"
    using xyz_unrelated unfolding length_expenseCategories upto_10 list_all_iff by blast
  have l: "(4::nat) < length expenseCategories" by (simp add: length_expenseCategories)
  from l netflix_premium(1) o k processBudget_category_amended [of 4 ?n]
  have a: "fst (category_loop ?n expenseCategories (None, 0)) = Some (fst (expenseCategories ! 4))"
    by blast
  from x processBudget_category_amended [of 4 "str ''xyz''"]
  have b: "category_loop (str ''xyz'') expenseCategories (None, 0) = (None, 0)"
    by blast
  have ne: "str ''entretenimiento'' \<noteq> []" by (simp add: str_def)
  have s: "\<not> status_query (toLowerCase ?msg)"
    "search budget_pattern (toLowerCase ?msg)
      = Some (0, [], [1 \<mapsto> str ''netflix premium'', 2 \<mapsto> str ''50000''])"
    unfolding msg_netflix by (rule msg_netflix_status, rule msg_netflix_match)
  have g: "[1 \<mapsto> str ''netflix premium'', 2 \<mapsto> str ''50000''] (1::nat)
      = Some (str ''netflix premium'')"
    "[1 \<mapsto> str ''netflix premium'', 2 \<mapsto> str ''50000''] (2::nat) = Some (str ''50000'')"
    by simp_all
  from s g processBudget_category_amended
    [of 4 ?n ?msg 0 "[]" "[1 \<mapsto> str ''netflix premium'', 2 \<mapsto> str ''50000'']"
       "str ''netflix premium''" "str ''50000''" "\<lambda>s. 0" True None]
  have c: "fst (processBudget (\<lambda>s. 0) True None ?msg) = BudgetUpdated (str ''entretenimiento'') 0"
    by (simp add: trim_netflix a netflix_premium(4) ne)
  from a b c netflix_premium(1,4) show ?thesis by simp
qed

lemma compu_facts:
  "map fst (filter (\<lambda>e. within_keyword (str ''compu'') (snd e)) expenseCategories)
     = [str ''tecnolog'' @ [237] @ str ''a'']"
  "filter (\<lambda>e. str_includes (fst e) (str ''compu'')) expenseCategories = []"
  "category_loop (str ''compu'') expenseCategories (None, 0) = (None, 0)"
  by (simp_all add: cat_eval key_step_def Let_def)

lemma msg_compu:
  "toLowerCase (str ''presupuesto para compu 5000'') =
     [112, 114, 101, 115, 117, 112, 117, 101, 115, 116, 111, 32, 112, 97, 114, 97, 32,
      99, 111, 109, 112, 117, 32, 53, 48, 48, 48]"
  "\<not> status_query [112, 114, 101, 115, 117, 112, 117, 101, 115, 116, 111, 32, 112, 97, 114, 97, 32,
      99, 111, 109, 112, 117, 32, 53, 48, 48, 48]"
  "search budget_pattern [112, 114, 101, 115, 117, 112, 117, 101, 115, 116, 111, 32, 112, 97, 114, 97, 32,
      99, 111, 109, 112, 117, 32, 53, 48, 48, 48]
    = Some (0, [], [1 \<mapsto> str ''compu'', 2 \<mapsto> str ''5000''])"
  "toLowerCase (trim (str ''compu'')) = str ''compu''"
  by (simp_all add: str_eval status_query_def budget_pattern_def rx_defs)

text \<open>
  Claim C7 as stated fails: \<open>compu\<close> is a substring of a keyword of one category only
  (\<open>computadora\<close>, of the technology category) and of no category key, and no category is
  selected: the message \<open>presupuesto para compu 5000\<close> is answered with the category not
  identified.
\<close>

theorem processBudget_category_counterexample:
  "map fst (filter (\<lambda>e. within_keyword (str ''compu'') (snd e)) expenseCategories)
     = [str ''tecnolog'' @ [237] @ str ''a'']
   \<and> filter (\<lambda>e. str_includes (fst e) (str ''compu'')) expenseCategories = []
   \<and> category_loop (str ''compu'') expenseCategories (None, 0) = (None, 0)
   \<and> processBudget (\<lambda>s. 0) True None (str ''presupuesto para compu 5000'')
       = (CategoryNotIdentified, None)"
proof -
  have s: "\<not> status_query (toLowerCase (str ''presupuesto para compu 5000''))"
    "search budget_pattern (toLowerCase (str ''presupuesto para compu 5000''))
      = Some (0, [], [1 \<mapsto> str ''compu'', 2 \<mapsto> str ''5000''])"
    unfolding msg_compu(1) by (rule msg_compu)+
  have g: "[1 \<mapsto> str ''compu'', 2 \<mapsto> str ''5000''] (1::nat) = Some (str ''compu'')"
    "[1 \<mapsto> str ''compu'', 2 \<mapsto> str ''5000''] (2::nat) = Some (str ''5000'')"
    by simp_all
  have "processBudget (\<lambda>s. 0) True None (str ''presupuesto para compu 5000'')
       = (CategoryNotIdentified, None)"
    unfolding processBudget_matched [OF s g] msg_compu(4) compu_facts(3)
    by simp
  with compu_facts show ?thesis by blast
qed

section \<open>The total of a receipt, labelled patterns first\<close>

lemma receipt_patterns_nth:
  "receipt_patterns ! 0 =
     seq ([liti (str ''TOTAL''), Star is_space, Opt (Chr is_currency), Star is_space]
          @ [Grp 1 (many1 is_amount_char)])"
  "receipt_patterns ! 1 =
     seq ([liti (str ''IMPORTE''), Star is_space, Opt (Chr is_currency), Star is_space]
          @ [Grp 1 (many1 is_amount_char)])"
  "receipt_patterns ! 2 =
     seq ([liti (str ''TOTAL''), Star is_space, Opt (Chr (\<lambda>x. x = 58)), Star is_space,
           Opt (Chr is_currency), Star is_space] @ [Grp 1 (many1 is_amount_char)])"
  by (simp_all add: receipt_patterns_def)

lemma receipt_group:
  assumes "j < 3" "search (receipt_patterns ! j) text = Some (i, rest, m)"
  shows "\<exists>g. m 1 = Some g \<and> g \<noteq> [] \<and> list_all is_amount_char g
           \<and> amount_of_pattern text (receipt_patterns ! j) =
               Some (replace_str (trim g) (str '','') (str ''.''))"
proof -
  from assms(1) consider "j = 0" | "j = 1" | "j = 2" by linarith
  then show ?thesis
  proof cases
    case 1
    with assms(2) show ?thesis
      unfolding 1 receipt_patterns_nth by (intro amount_of_pattern_group)
  next
    case 2
    with assms(2) show ?thesis
      unfolding 2 receipt_patterns_nth by (intro amount_of_pattern_group)
  next
    case 3
    with assms(2) show ?thesis
      unfolding 3 receipt_patterns_nth by (intro amount_of_pattern_group)
  qed
qed

lemma receipt_none:
  "search (receipt_patterns ! j) text = None \<Longrightarrow>
     amount_of_pattern text (receipt_patterns ! j) = None"
  by (simp add: amount_of_pattern_def)

lemma extractAmount_unfold:
  "extractAmount text =
    (case amount_of_pattern text (receipt_patterns ! 0) of Some r \<Rightarrow> Some r | None \<Rightarrow>
       (case amount_of_pattern text (receipt_patterns ! 1) of Some r \<Rightarrow> Some r | None \<Rightarrow>
          (case amount_of_pattern text (receipt_patterns ! 2) of Some r \<Rightarrow> Some r | None \<Rightarrow>
             amount_of_pattern text (receipt_patterns ! 3))))"
  by (simp add: extractAmount_def receipt_patterns_def split: option.splits)

text \<open>
  The labelled patterns come first. \<open>extractAmount\<close> tries the patterns labelled
  \<open>TOTAL\<close>, \<open>IMPORTE\<close> and \<open>TOTAL:\<close> in this order before the bare currency symbol:
  the first of them that matches gives the amount, its captured run of digits, periods and
  commas, trimmed and with the first comma replaced by a period, whatever the bare currency
  pattern would match. When no pattern matches the result is \<open>null\<close>.
\<close>

theorem extractAmount_labelled_first:
  "(search (receipt_patterns ! 0) text = Some (i, rest, m) \<longrightarrow>
      (\<exists>g. m 1 = Some g \<and> g \<noteq> [] \<and> list_all is_amount_char g
         \<and> extractAmount text = Some (replace_str (trim g) (str '','') (str ''.''))))
   \<and> (search (receipt_patterns ! 0) text = None
        \<and> search (receipt_patterns ! 1) text = Some (i, rest, m) \<longrightarrow>
      (\<exists>g. m 1 = Some g \<and> g \<noteq> [] \<and> list_all is_amount_char g
         \<and> extractAmount text = Some (replace_str (trim g) (str '','') (str ''.''))))
   \<and> (search (receipt_patterns ! 0) text = None \<and> search (receipt_patterns ! 1) text = None
        \<and> search (receipt_patterns ! 2) text = Some (i, rest, m) \<longrightarrow>
      (\<exists>g. m 1 = Some g \<and> g \<noteq> [] \<and> list_all is_amount_char g
         \<and> extractAmount text = Some (replace_str (trim g) (str '','') (str ''.''))))
   \<and> ((\<forall>pattern \<in> set receipt_patterns. search pattern text = None) \<longrightarrow>
        extractAmount text = None)"
proof (intro conjI impI)
  assume "search (receipt_patterns ! 0) text = Some (i, rest, m)"
  from receipt_group [OF _ this]
  show "\<exists>g. m 1 = Some g \<and> g \<noteq> [] \<and> list_all is_amount_char g
         \<and> extractAmount text = Some (replace_str (trim g) (str '','') (str ''.''))"
    by (auto simp: extractAmount_unfold)
next
  assume h: "search (receipt_patterns ! 0) text = None
        \<and> search (receipt_patterns ! 1) text = Some (i, rest, m)"
  then have "search (receipt_patterns ! 1) text = Some (i, rest, m)" by simp
  from receipt_group [OF _ this] h
  show "\<exists>g. m 1 = Some g \<and> g \<noteq> [] \<and> list_all is_amount_char g
         \<and> extractAmount text = Some (replace_str (trim g) (str '','') (str ''.''))"
    by (auto simp: extractAmount_unfold receipt_none)
next
  assume h: "search (receipt_patterns ! 0) text = None
        \<and> search (receipt_patterns ! 1) text = None
        \<and> search (receipt_patterns ! 2) text = Some (i, rest, m)"
  then have "search (receipt_patterns ! 2) text = Some (i, rest, m)" by simp
  from receipt_group [OF _ this] h
  show "\<exists>g. m 1 = Some g \<and> g \<noteq> [] \<and> list_all is_amount_char g
         \<and> extractAmount text = Some (replace_str (trim g) (str '','') (str ''.''))"
    by (auto simp: extractAmount_unfold receipt_none)
next
  assume "\<forall>pattern \<in> set receipt_patterns. search pattern text = None"
  then show "extractAmount text = None"
    by (simp add: extractAmount_def for_return_None_iff amount_of_pattern_def)
qed

lemmas receipt_eval = receipt_patterns_def is_currency_def rx_defs

lemma receipt_a:
  "search (receipt_patterns ! 0) (str ''Pan $ 1.000'' @ [10] @ str ''TOTAL $ 23.500'')
     = Some (12, [], [1 \<mapsto> str ''23.500''])"
  "search (receipt_patterns ! 3) (str ''Pan $ 1.000'' @ [10] @ str ''TOTAL $ 23.500'')
     = Some (4, 10 # str ''TOTAL $ 23.500'', [1 \<mapsto> str ''1.000''])"
  by (simp_all add: receipt_eval)

lemma receipt_b:
  "search (receipt_patterns ! 0) (str ''Pan $ 1,50'' @ [10] @ str ''Importe 23,50'') = None"
  "search (receipt_patterns ! 1) (str ''Pan $ 1,50'' @ [10] @ str ''Importe 23,50'')
     = Some (11, [], [1 \<mapsto> str ''23,50''])"
  by (simp_all add: receipt_eval)

lemma receipt_c:
  "search (receipt_patterns ! 0) (str ''Pan $ 1,50'' @ [10] @ str ''Total: 23,50'') = None"
  "search (receipt_patterns ! 1) (str ''Pan $ 1,50'' @ [10] @ str ''Total: 23,50'') = None"
  "search (receipt_patterns ! 2) (str ''Pan $ 1,50'' @ [10] @ str ''Total: 23,50'')
     = Some (11, [], [1 \<mapsto> str ''23,50''])"
  by (simp_all add: receipt_eval)

lemma receipt_d:
  "list_all (\<lambda>pattern. search pattern (str ''Gracias'') = None) receipt_patterns"
  by (simp add: receipt_eval)

lemma norm_amounts:
  "replace_str (trim (str ''23.500'')) (str '','') (str ''.'') = str ''23.500''"
  "replace_str (trim (str ''23,50'')) (str '','') (str ''.'') = str ''23.50''"
  by (simp_all add: str_eval)

theorem extractAmount_labelled_first_witness:
  "search (receipt_patterns ! 3) (str ''Pan $ 1.000'' @ [10] @ str ''TOTAL $ 23.500'') \<noteq> None
   \<and> extractAmount (str ''Pan $ 1.000'' @ [10] @ str ''TOTAL $ 23.500'') = Some (str ''23.500'')
   \<and> extractAmount (str ''Pan $ 1,50'' @ [10] @ str ''Importe 23,50'') = Some (str ''23.50'')
   \<and> extractAmount (str ''Pan $ 1,50'' @ [10] @ str ''Total: 23,50'') = Some (str ''23.50'')
   \<and> list_all (\<lambda>pattern. search pattern (str ''Gracias'') = None) receipt_patterns
   \<and> extractAmount (str ''Gracias'') = None"
proof -
  have a: "extractAmount (str ''Pan $ 1.000'' @ [10] @ str ''TOTAL $ 23.500'')
      = Some (str ''23.500'')"
    using receipt_a(1) norm_amounts
      extractAmount_labelled_first
        [of "str ''Pan $ 1.000'' @ [10] @ str ''TOTAL $ 23.500''" 12 "[]" "[1 \<mapsto> str ''23.500'']"]
    by simp
  have b: "extractAmount (str ''Pan $ 1,50'' @ [10] @ str ''Importe 23,50'') = Some (str ''23.50'')"
    using receipt_b norm_amounts
      extractAmount_labelled_first
        [of "str ''Pan $ 1,50'' @ [10] @ str ''Importe 23,50''" 11 "[]" "[1 \<mapsto> str ''23,50'']"]
    by simp
  have c: "extractAmount (str ''Pan $ 1,50'' @ [10] @ str ''Total: 23,50'') = Some (str ''23.50'')"
    using receipt_c norm_amounts
      extractAmount_labelled_first
        [of "str ''Pan $ 1,50'' @ [10] @ str ''Total: 23,50''" 11 "[]" "[1 \<mapsto> str ''23,50'']"]
    by simp
  have d: "extractAmount (str ''Gracias'') = None"
    using receipt_d extractAmount_labelled_first [of "str ''Gracias''"]
    by (simp add: list_all_iff)
  have f: "search (receipt_patterns ! 3) (str ''Pan $ 1.000'' @ [10] @ str ''TOTAL $ 23.500'') \<noteq> None"
    using receipt_a(2) by simp
  from a b c d f receipt_d show ?thesis by blast
qed

lemma subtotal_amount:
  "extractAmount (str ''SUBTOTAL 20.000'' @ [10] @ str ''TOTAL $ 23.500'') = Some (str ''20.000'')"
  by (simp add: extractAmount_def amount_of_pattern_def receipt_eval trim_def)

text \<open>
  Claim C9. By the claim, an OCR text that contains \<open>TOTAL $ 23.500\<close> has the amount
  \<open>23.500\<close>. On the receipt with the line \<open>SUBTOTAL 20.000\<close> before the line
  \<open>TOTAL $ 23.500\<close>, \<open>extractAmount\<close> returns \<open>20.000\<close>, the subtotal and not the
  total: the pattern labelled \<open>TOTAL\<close> is not anchored at the beginning of a word and
  matches inside \<open>SUBTOTAL\<close>.
\<close>

theorem extractAmount_subtotal_receipt:
  "str_includes (str ''SUBTOTAL 20.000'' @ [10] @ str ''TOTAL $ 23.500'') (str ''TOTAL $ 23.500'')
   \<and> extractAmount (str ''SUBTOTAL 20.000'' @ [10] @ str ''TOTAL $ 23.500'') = Some (str ''20.000'')
   \<and> str ''20.000'' \<noteq> str ''23.500''"
proof -
  have a: "str_includes (str ''SUBTOTAL 20.000'' @ [10] @ str ''TOTAL $ 23.500'')
      (str ''TOTAL $ 23.500'')"
    by (simp add: str_def)
  have b: "str ''20.000'' \<noteq> str ''23.500''" by (simp add: str_def)
  from a b subtotal_amount show ?thesis by blast
qed

end
